theory Spec2Isabelle
  imports Main "HOL-Library.Finite_Map" "HOL-Library.Sublist"
begin

section \<open>JavaScript values\<close>

text \<open>
  The API keeps plain JavaScript objects in three arrays and merges request bodies into
  them with the spread operator, so records are modelled dynamically: an object is a
  finite map from property names to values. \<open>Num r\<close> is the finite double whose exact
  value is the rational \<open>r\<close>. The operators of the language that compute with numbers
  and strings (\<open>*\<close>, \<open>+=\<close>, \<open>>=\<close>, \<open><=\<close>, \<open>toLowerCase\<close>), with their coercions
  and their IEEE-754 rounding, are not defined here: the functions that use them take
  them as arguments.
\<close>

datatype jsval =
    Undefined
  | Null
  | Bool bool
  | Num rat
  | NaN
  | Str string
  | Arr "jsval list"
  | Obj "(string, jsval) fmap"

type_synonym obj = "(string, jsval) fmap"

text \<open>Property read \<open>o.k\<close>: a property that is absent reads as \<open>undefined\<close>.\<close>

definition jsget :: "obj \<Rightarrow> string \<Rightarrow> jsval" where
  "jsget ob k = (case fmlookup ob k of None \<Rightarrow> Undefined | Some v \<Rightarrow> v)"

text \<open>
  Property read on an arbitrary value. Reading a property of \<open>null\<close> or \<open>undefined\<close>
  throws; the callers below test for these two before they read.
\<close>

definition vget :: "jsval \<Rightarrow> string \<Rightarrow> jsval" where
  "vget v k = (case v of Obj ob \<Rightarrow> jsget ob k | _ \<Rightarrow> Undefined)"

text \<open>An object literal \<open>{k1: v1, ...}\<close>.\<close>

definition object :: "(string \<times> jsval) list \<Rightarrow> obj" where
  "object kvs = fmap_of_list kvs"

text \<open>
  Strict equality \<open>a === b\<close>. Arrays and objects compare by reference; every
  comparison in the handlers has a request value on one side and a stored value on the
  other, which never share a reference, so the result on them is \<open>False\<close>.
\<close>

fun strict_eq :: "jsval \<Rightarrow> jsval \<Rightarrow> bool" where
  "strict_eq Undefined Undefined = True"
| "strict_eq Null Null = True"
| "strict_eq (Bool a) (Bool b) = (a = b)"
| "strict_eq (Num a) (Num b) = (a = b)"
| "strict_eq (Str a) (Str b) = (a = b)"
| "strict_eq _ _ = False"

text \<open>Truthiness, as tested by \<open>if (v)\<close>, \<open>!v\<close> and \<open>v && w\<close>.\<close>

fun truthy :: "jsval \<Rightarrow> bool" where
  "truthy Undefined = False"
| "truthy Null = False"
| "truthy (Bool b) = b"
| "truthy (Num n) = (n \<noteq> 0)"
| "truthy NaN = False"
| "truthy (Str s) = (s \<noteq> [])"
| "truthy (Arr _) = True"
| "truthy (Obj _) = True"

section \<open>Entity store\<close>

text \<open>
  \<open>users\<close>, \<open>products\<close> and \<open>orders\<close> are three module-level arrays;
  \<open>userOperations\<close>, \<open>productOperations\<close> and \<open>orderOperations\<close> are the same five
  functions written out three times, once per array. They are modelled once, over the
  array they work on. \<open>generateId()\<close> and \<open>getCurrentTimestamp()\<close> read the
  environment (a random UUID, the clock); each call is an argument of the model.
\<close>

record store =
  users :: "obj list"
  products :: "obj list"
  orders :: "obj list"

text \<open>\<open>getAll\<close> returns a copy of the array, holding the same records.\<close>

definition getAll :: "obj list \<Rightarrow> obj list" where
  "getAll coll = coll"

definition getById :: "obj list \<Rightarrow> jsval \<Rightarrow> obj option" where
  "getById coll ident = find (\<lambda>r. strict_eq (jsget r ''id'') ident) coll"

text \<open>\<open>Array.prototype.findIndex\<close>; \<open>None\<close> stands for \<open>-1\<close>.\<close>

fun findIndex :: "('a \<Rightarrow> bool) \<Rightarrow> 'a list \<Rightarrow> nat option" where
  "findIndex P [] = None"
| "findIndex P (x # xs) = (if P x then Some 0 else map_option Suc (findIndex P xs))"

text \<open>
  \<open>{ id: generateId(), ...data, createdAt: getCurrentTimestamp(),
      updatedAt: getCurrentTimestamp() }\<close>: the spread comes after \<open>id\<close> and before the
  two timestamps, which are two separate readings of the clock.
\<close>

definition create :: "obj list \<Rightarrow> string \<Rightarrow> string \<Rightarrow> string \<Rightarrow> obj \<Rightarrow> obj list \<times> obj" where
  "create coll gid t1 t2 data =
     (let new = fmupd ''updatedAt'' (Str t2)
                  (fmupd ''createdAt'' (Str t1) (object [(''id'', Str gid)] ++\<^sub>f data))
      in (coll @ [new], new))"

text \<open>\<open>{ ...coll[index], ...data, updatedAt: getCurrentTimestamp() }\<close>; \<open>None\<close> is \<open>null\<close>.\<close>

definition merged :: "obj \<Rightarrow> obj \<Rightarrow> string \<Rightarrow> obj" where
  "merged old data now = fmupd ''updatedAt'' (Str now) (old ++\<^sub>f data)"

definition update :: "obj list \<Rightarrow> jsval \<Rightarrow> string \<Rightarrow> obj \<Rightarrow> obj list \<times> obj option" where
  "update coll ident now data =
     (case findIndex (\<lambda>r. strict_eq (jsget r ''id'') ident) coll of
        None \<Rightarrow> (coll, None)
      | Some i \<Rightarrow> (coll[i := merged (coll ! i) data now], Some (merged (coll ! i) data now)))"

text \<open>A field of the record that \<open>update\<close> or \<open>getById\<close> returned; \<open>Undefined\<close> when
  there is no record.\<close>

definition returned :: "obj option \<Rightarrow> string \<Rightarrow> jsval" where
  "returned r k = (case r of None \<Rightarrow> Undefined | Some m \<Rightarrow> jsget m k)"

text \<open>\<open>splice(index, 1)\<close> on a hit.\<close>

definition delete :: "obj list \<Rightarrow> jsval \<Rightarrow> obj list \<times> bool" where
  "delete coll ident =
     (case findIndex (\<lambda>r. strict_eq (jsget r ''id'') ident) coll of
        None \<Rightarrow> (coll, False)
      | Some i \<Rightarrow> (take i coll @ drop (Suc i) coll, True))"

text \<open>
  The seed data of the module. The prices 999.99, 1199.99 and 29.99 are the doubles that
  these literals denote, written as the exact fractions.
\<close>

definition initial_store :: store where
  "initial_store = \<lparr>
     users = [
       object [(''id'', Str ''550e8400-e29b-41d4-a716-446655440000''),
               (''name'', Str ''John Doe''),
               (''email'', Str ''john.doe@example.com''),
               (''age'', Num 30),
               (''createdAt'', Str ''2024-01-15T10:00:00.000Z''),
               (''updatedAt'', Str ''2024-01-15T10:00:00.000Z'')],
       object [(''id'', Str ''550e8400-e29b-41d4-a716-446655440001''),
               (''name'', Str ''Jane Smith''),
               (''email'', Str ''jane.smith@example.com''),
               (''age'', Num 25),
               (''createdAt'', Str ''2024-01-15T11:00:00.000Z''),
               (''updatedAt'', Str ''2024-01-15T11:00:00.000Z'')]],
     products = [
       object [(''id'', Str ''660e8400-e29b-41d4-a716-446655440000''),
               (''name'', Str ''iPhone 15 Pro''),
               (''description'', Str ''Latest iPhone with advanced features''),
               (''price'', Num (4398002530638889 / 4398046511104)),
               (''category'', Str ''electronics''),
               (''inStock'', Bool True),
               (''createdAt'', Str ''2024-01-15T10:00:00.000Z''),
               (''updatedAt'', Str ''2024-01-15T10:00:00.000Z'')],
       object [(''id'', Str ''660e8400-e29b-41d4-a716-446655440001''),
               (''name'', Str ''MacBook Air M2''),
               (''description'', Str ''Powerful laptop with M2 chip''),
               (''price'', Num (5277611832859689 / 4398046511104)),
               (''category'', Str ''electronics''),
               (''inStock'', Bool True),
               (''createdAt'', Str ''2024-01-15T10:00:00.000Z''),
               (''updatedAt'', Str ''2024-01-15T10:00:00.000Z'')],
       object [(''id'', Str ''660e8400-e29b-41d4-a716-446655440002''),
               (''name'', Str ''Cotton T-Shirt''),
               (''description'', Str ''Comfortable cotton t-shirt''),
               (''price'', Num (8441434551552573 / 281474976710656)),
               (''category'', Str ''clothing''),
               (''inStock'', Bool True),
               (''createdAt'', Str ''2024-01-15T10:00:00.000Z''),
               (''updatedAt'', Str ''2024-01-15T10:00:00.000Z'')]],
     orders = [
       object [(''id'', Str ''770e8400-e29b-41d4-a716-446655440000''),
               (''userId'', Str ''550e8400-e29b-41d4-a716-446655440000''),
               (''products'', Arr [Obj (object
                   [(''productId'', Str ''660e8400-e29b-41d4-a716-446655440000''),
                    (''quantity'', Num 1),
                    (''price'', Num (4398002530638889 / 4398046511104))])]),
               (''totalAmount'', Num (4398002530638889 / 4398046511104)),
               (''status'', Str ''delivered''),
               (''createdAt'', Str ''2024-01-15T12:00:00.000Z''),
               (''updatedAt'', Str ''2024-01-15T12:00:00.000Z'')]] \<rparr>"

section \<open>Responses\<close>

text \<open>
  A message is a string literal or a template literal with one interpolated value.
  The success envelope is \<open>{success: true, message?, data?, pagination?}\<close>, the error
  envelope \<open>{error: true, message, statusCode, timestamp}\<close> (its timestamp is not
  modelled), and the validation middleware answers 400 with the list of
  \<open>{field, message, value}\<close>.
\<close>

datatype msg = Lit string | Tmpl string jsval string

record pagination =
  page :: int
  limit :: int
  total :: nat
  totalPages :: int

datatype payload = NoData | Item "obj option" | Page "obj list" pagination

datatype reply =
    Success nat "msg option" payload
  | Failure nat msg
  | ValidationFailed "(string \<times> string \<times> jsval) list"

fun status :: "reply \<Rightarrow> nat" where
  "status (Success c _ _) = c"
| "status (Failure c _) = c"
| "status (ValidationFailed _) = 400"

section \<open>Users handlers\<close>

text \<open>
  The route callbacks of \<open>routes/users.js\<close>, as they run once the validator chain in
  front of them has passed: \<open>ident\<close> is \<open>req.params.id\<close> (always a string) and
  \<open>body\<close> is \<open>req.body\<close>.
\<close>

definition users_get :: "store \<Rightarrow> string \<Rightarrow> reply" where
  "users_get s ident =
     (case getById (users s) (Str ident) of
        None \<Rightarrow> Failure 404 (Lit ''User not found'')
      | Some user \<Rightarrow> Success 200 None (Item (Some user)))"

definition users_post :: "store \<Rightarrow> string \<Rightarrow> string \<Rightarrow> string \<Rightarrow> obj \<Rightarrow> store \<times> reply" where
  "users_post s gid t1 t2 body =
     (case find (\<lambda>user. strict_eq (jsget user ''email'') (jsget body ''email''))
             (getAll (users s)) of
        Some existingUser \<Rightarrow> (s, Failure 409 (Lit ''User with this email already exists''))
      | None \<Rightarrow>
          (case create (users s) gid t1 t2 body of
             (coll, newUser) \<Rightarrow>
               (s\<lparr>users := coll\<rparr>,
                Success 201 (Some (Lit ''User created successfully'')) (Item (Some newUser)))))"

definition users_put :: "store \<Rightarrow> string \<Rightarrow> string \<Rightarrow> obj \<Rightarrow> store \<times> reply" where
  "users_put s ident now body =
     (case getById (users s) (Str ident) of
        None \<Rightarrow> (s, Failure 404 (Lit ''User not found''))
      | Some existingUser \<Rightarrow>
          if \<not> strict_eq (jsget body ''email'') (jsget existingUser ''email'') \<and>
             find (\<lambda>user. strict_eq (jsget user ''email'') (jsget body ''email'') \<and>
                           \<not> strict_eq (jsget user ''id'') (Str ident))
               (getAll (users s)) \<noteq> None
          then (s, Failure 409 (Lit ''User with this email already exists''))
          else
            (case update (users s) (Str ident) now body of
               (coll, updatedUser) \<Rightarrow>
                 (s\<lparr>users := coll\<rparr>,
                  Success 200 (Some (Lit ''User updated successfully'')) (Item updatedUser))))"

definition users_patch :: "store \<Rightarrow> string \<Rightarrow> string \<Rightarrow> obj \<Rightarrow> store \<times> reply" where
  "users_patch s ident now body =
     (case getById (users s) (Str ident) of
        None \<Rightarrow> (s, Failure 404 (Lit ''User not found''))
      | Some existingUser \<Rightarrow>
          if truthy (jsget body ''email'') \<and>
             \<not> strict_eq (jsget body ''email'') (jsget existingUser ''email'') \<and>
             find (\<lambda>user. strict_eq (jsget user ''email'') (jsget body ''email'') \<and>
                           \<not> strict_eq (jsget user ''id'') (Str ident))
               (getAll (users s)) \<noteq> None
          then (s, Failure 409 (Lit ''User with this email already exists''))
          else
            (case update (users s) (Str ident) now body of
               (coll, updatedUser) \<Rightarrow>
                 (s\<lparr>users := coll\<rparr>,
                  Success 200 (Some (Lit ''User updated successfully'')) (Item updatedUser))))"

definition users_delete :: "store \<Rightarrow> string \<Rightarrow> store \<times> reply" where
  "users_delete s ident =
     (case delete (users s) (Str ident) of
        (coll, deleted) \<Rightarrow>
          if \<not> deleted then (s, Failure 404 (Lit ''User not found''))
          else (s\<lparr>users := coll\<rparr>, Success 200 (Some (Lit ''User deleted successfully'')) NoData))"

text \<open>The emails and the ids of the stored users, in order; uniqueness is distinctness of
  the list.\<close>

definition emails :: "store \<Rightarrow> jsval list" where
  "emails s = map (\<lambda>user. jsget user ''email'') (users s)"

definition ids :: "store \<Rightarrow> jsval list" where
  "ids s = map (\<lambda>user. jsget user ''id'') (users s)"

section \<open>Sanitizers of the users and products routes\<close>

text \<open>
  The chains in front of the users callbacks hold \<open>body("name").trim()\<close> and
  \<open>body("email").normalizeEmail()\<close>, the products chains \<open>trim()\<close> on \<open>name\<close> and
  \<open>description\<close>: before the callback runs, express-validator replaces the field in
  \<open>req.body\<close> by the sanitizer's result. \<open>trim\<close> and \<open>normalizeEmail\<close> are the
  library's, taken as parameters (functions of the field's value). A field that is
  \<open>undefined\<close> stays so on the requests that reach the callback: an optional field is
  skipped, and a required one fails validation. Whether the validators of these chains
  pass is not modelled; the routes below are what runs when they do.
\<close>

definition sanitize_field :: "(jsval \<Rightarrow> jsval) \<Rightarrow> string \<Rightarrow> obj \<Rightarrow> obj" where
  "sanitize_field f k body =
     (if jsget body k = Undefined then body else fmupd k (f (jsget body k)) body)"

definition sanitize_user :: "(jsval \<Rightarrow> jsval) \<Rightarrow> (jsval \<Rightarrow> jsval) \<Rightarrow> obj \<Rightarrow> obj" where
  "sanitize_user trim normalizeEmail body =
     sanitize_field normalizeEmail ''email'' (sanitize_field trim ''name'' body)"


definition users_put_route ::
  "(jsval \<Rightarrow> jsval) \<Rightarrow> (jsval \<Rightarrow> jsval) \<Rightarrow> store \<Rightarrow> string \<Rightarrow> string \<Rightarrow> obj \<Rightarrow> store \<times> reply" where
  "users_put_route trim normalizeEmail s ident now body =
     users_put s ident now (sanitize_user trim normalizeEmail body)"

definition users_patch_route ::
  "(jsval \<Rightarrow> jsval) \<Rightarrow> (jsval \<Rightarrow> jsval) \<Rightarrow> store \<Rightarrow> string \<Rightarrow> string \<Rightarrow> obj \<Rightarrow> store \<times> reply" where
  "users_patch_route trim normalizeEmail s ident now body =
     users_patch s ident now (sanitize_user trim normalizeEmail body)"

section \<open>Orders handlers\<close>

text \<open>
  \<open>for (const productItem of v)\<close>: an array yields its elements, a string its
  characters; anything else is not iterable and the loop throws a \<open>TypeError\<close>
  (\<open>None\<close>), which the handler's \<open>catch\<close> turns into a 500.
\<close>

definition iterate :: "jsval \<Rightarrow> jsval list option" where
  "iterate v = (case v of Arr xs \<Rightarrow> Some xs | Str cs \<Rightarrow> Some (map (\<lambda>c. Str [c]) cs) | _ \<Rightarrow> None)"

text \<open>The line stored for a request line and the product found for it.\<close>

definition snapshot :: "jsval \<Rightarrow> obj \<Rightarrow> jsval" where
  "snapshot productItem product =
     Obj (object [(''productId'', vget productItem ''productId''),
                  (''quantity'', vget productItem ''quantity''),
                  (''price'', jsget product ''price'')])"

text \<open>
  The loop of the create handler ("Validate products exist and calculate total"), with
  its two accumulators \<open>totalAmount\<close> and \<open>validatedProducts\<close>. \<open>star\<close> is the
  operator \<open>*\<close> of \<open>product.price * productItem.quantity\<close> and \<open>pluseq\<close> the operator
  of \<open>totalAmount += itemTotal\<close>. The loop returns the response of the first line that
  fails, or the accumulators. Reading \<open>productId\<close> of a \<open>null\<close> line throws, which
  the handler's \<open>catch\<close> answers with 500.
\<close>

fun validate_products ::
  "(jsval \<Rightarrow> jsval \<Rightarrow> jsval) \<Rightarrow> (jsval \<Rightarrow> jsval \<Rightarrow> jsval) \<Rightarrow>
   obj list \<Rightarrow> jsval list \<Rightarrow> jsval \<Rightarrow> jsval list \<Rightarrow> reply + jsval \<times> jsval list" where
  "validate_products star pluseq prods [] totalAmount validatedProducts =
     Inr (totalAmount, validatedProducts)"
| "validate_products star pluseq prods (productItem # rest) totalAmount validatedProducts =
     (if productItem = Null \<or> productItem = Undefined
      then Inl (Failure 500 (Lit ''Failed to create order''))
      else
        (case getById prods (vget productItem ''productId'') of
           None \<Rightarrow>
             Inl (Failure 404 (Tmpl ''Product with ID '' (vget productItem ''productId'') '' not found''))
         | Some product \<Rightarrow>
             if \<not> truthy (jsget product ''inStock'')
             then Inl (Failure 400 (Tmpl ''Product '' (jsget product ''name'') '' is out of stock''))
             else validate_products star pluseq prods rest
                    (pluseq totalAmount
                       (star (jsget product ''price'') (vget productItem ''quantity'')))
                    (validatedProducts @ [snapshot productItem product])))"

definition orders_post ::
  "(jsval \<Rightarrow> jsval \<Rightarrow> jsval) \<Rightarrow> (jsval \<Rightarrow> jsval \<Rightarrow> jsval) \<Rightarrow>
   store \<Rightarrow> string \<Rightarrow> string \<Rightarrow> string \<Rightarrow> obj \<Rightarrow> store \<times> reply" where
  "orders_post star pluseq s gid t1 t2 body =
     (case getById (users s) (jsget body ''userId'') of
        None \<Rightarrow> (s, Failure 404 (Lit ''User not found''))
      | Some user \<Rightarrow>
          (case iterate (jsget body ''products'') of
             None \<Rightarrow> (s, Failure 500 (Lit ''Failed to create order''))
           | Some items \<Rightarrow>
               (case validate_products star pluseq (products s) items (Num 0) [] of
                  Inl failure \<Rightarrow> (s, failure)
                | Inr (totalAmount, validatedProducts) \<Rightarrow>
                    (case create (orders s) gid t1 t2
                            (object [(''userId'', jsget body ''userId''),
                                     (''products'', Arr validatedProducts),
                                     (''totalAmount'', totalAmount),
                                     (''status'', Str ''pending'')]) of
                       (coll, newOrder) \<Rightarrow>
                         (s\<lparr>orders := coll\<rparr>,
                          Success 201 (Some (Lit ''Order created successfully''))
                            (Item (Some newOrder)))))))"

text \<open>The loop of the replace handler ("Validate products exist"): no stock test.\<close>

fun products_exist :: "obj list \<Rightarrow> jsval list \<Rightarrow> reply option" where
  "products_exist prods [] = None"
| "products_exist prods (productItem # rest) =
     (if productItem = Null \<or> productItem = Undefined
      then Some (Failure 500 (Lit ''Failed to update order''))
      else
        (case getById prods (vget productItem ''productId'') of
           None \<Rightarrow>
             Some (Failure 404 (Tmpl ''Product with ID '' (vget productItem ''productId'') '' not found''))
         | Some product \<Rightarrow> products_exist prods rest))"

definition orders_put :: "store \<Rightarrow> string \<Rightarrow> string \<Rightarrow> obj \<Rightarrow> store \<times> reply" where
  "orders_put s ident now body =
     (case getById (orders s) (Str ident) of
        None \<Rightarrow> (s, Failure 404 (Lit ''Order not found''))
      | Some existingOrder \<Rightarrow>
          (case getById (users s) (jsget body ''userId'') of
             None \<Rightarrow> (s, Failure 404 (Lit ''User not found''))
           | Some user \<Rightarrow>
               (case iterate (jsget body ''products'') of
                  None \<Rightarrow> (s, Failure 500 (Lit ''Failed to update order''))
                | Some items \<Rightarrow>
                    (case products_exist (products s) items of
                       Some failure \<Rightarrow> (s, failure)
                     | None \<Rightarrow>
                         (case update (orders s) (Str ident) now body of
                            (coll, updatedOrder) \<Rightarrow>
                              (s\<lparr>orders := coll\<rparr>,
                               Success 200 (Some (Lit ''Order updated successfully''))
                                 (Item updatedOrder)))))))"

definition orders_patch :: "store \<Rightarrow> string \<Rightarrow> string \<Rightarrow> obj \<Rightarrow> store \<times> reply" where
  "orders_patch s ident now body =
     (case getById (orders s) (Str ident) of
        None \<Rightarrow> (s, Failure 404 (Lit ''Order not found''))
      | Some existingOrder \<Rightarrow>
          (case update (orders s) (Str ident) now body of
             (coll, updatedOrder) \<Rightarrow>
               (s\<lparr>orders := coll\<rparr>,
                Success 200 (Some (Lit ''Order updated successfully'')) (Item updatedOrder))))"

definition orders_get :: "store \<Rightarrow> string \<Rightarrow> reply" where
  "orders_get s ident =
     (case getById (orders s) (Str ident) of
        None \<Rightarrow> Failure 404 (Lit ''Order not found'')
      | Some order \<Rightarrow> Success 200 None (Item (Some order)))"

text \<open>
  The validator chain in front of the \<open>PATCH /orders/:id\<close> callback and the
  \<open>validate\<close> middleware. \<open>isUUID\<close> is express-validator's format test, taken as a
  parameter. \<open>body("status").optional().isIn([...])\<close> skips a status that is
  \<open>undefined\<close>. Otherwise express-validator runs the membership test on the string
  form of the value, and, when the value is an array, on each of its elements, so that
  an array passes when all its elements do (the empty array always). \<open>stringify\<close> is the
  library's conversion to a string of a value that is not one, taken as a parameter.
\<close>

definition order_statuses :: "string list" where
  "order_statuses = [''pending'', ''processing'', ''shipped'', ''delivered'', ''cancelled'']"

definition in_values :: "(jsval \<Rightarrow> string) \<Rightarrow> string list \<Rightarrow> jsval \<Rightarrow> bool" where
  "in_values stringify vals v = (case v of Str x \<Rightarrow> x \<in> set vals | _ \<Rightarrow> stringify v \<in> set vals)"

definition isIn :: "(jsval \<Rightarrow> string) \<Rightarrow> string list \<Rightarrow> jsval \<Rightarrow> bool" where
  "isIn stringify vals v =
     (case v of Arr xs \<Rightarrow> list_all (in_values stringify vals) xs | _ \<Rightarrow> in_values stringify vals v)"

definition orders_patch_errors ::
  "(string \<Rightarrow> bool) \<Rightarrow> (jsval \<Rightarrow> string) \<Rightarrow> string \<Rightarrow> obj \<Rightarrow> (string \<times> string \<times> jsval) list" where
  "orders_patch_errors isUUID stringify ident body =
     (if isUUID ident then [] else [(''id'', ''Invalid order ID format'', Str ident)]) @
     (if jsget body ''status'' = Undefined \<or> isIn stringify order_statuses (jsget body ''status'')
      then []
      else [(''status'', ''Invalid status'', jsget body ''status'')])"

definition orders_patch_route ::
  "(string \<Rightarrow> bool) \<Rightarrow> (jsval \<Rightarrow> string) \<Rightarrow> store \<Rightarrow> string \<Rightarrow> string \<Rightarrow> obj \<Rightarrow> store \<times> reply" where
  "orders_patch_route isUUID stringify s ident now body =
     (if orders_patch_errors isUUID stringify ident body \<noteq> []
      then (s, ValidationFailed (orders_patch_errors isUUID stringify ident body))
      else orders_patch s ident now body)"

section \<open>Products handlers\<close>





section \<open>List handlers\<close>























section \<open>Vocabulary of the statements about order creation\<close>

text \<open>
  A request line passes the loop of the create handler with the stored \<open>product\<close>:
  the line can be read, its \<open>productId\<close> finds the product, and the product's
  \<open>inStock\<close> is truthy.
\<close>

definition available :: "obj list \<Rightarrow> jsval \<Rightarrow> obj \<Rightarrow> bool" where
  "available prods productItem product \<longleftrightarrow>
     productItem \<noteq> Null \<and> productItem \<noteq> Undefined \<and>
     getById prods (vget productItem ''productId'') = Some product \<and>
     truthy (jsget product ''inStock'')"

text \<open>A request line whose product is missing, or found with a falsy \<open>inStock\<close>.\<close>

definition offending :: "obj list \<Rightarrow> jsval \<Rightarrow> bool" where
  "offending prods productItem \<longleftrightarrow>
     (case getById prods (vget productItem ''productId'') of
        None \<Rightarrow> True
      | Some product \<Rightarrow> \<not> truthy (jsget product ''inStock''))"

text \<open>\<open>itemTotal = product.price * productItem.quantity\<close>.\<close>

definition line_total :: "(jsval \<Rightarrow> jsval \<Rightarrow> jsval) \<Rightarrow> jsval \<Rightarrow> obj \<Rightarrow> jsval" where
  "line_total star productItem product =
     star (jsget product ''price'') (vget productItem ''quantity'')"

section \<open>Vocabulary of the statements about updates and responses\<close>

text \<open>A request line passes the loop of the replace handler: it can be read and its
  \<open>productId\<close> finds a stored product, in stock or not.\<close>

definition present :: "obj list \<Rightarrow> jsval \<Rightarrow> obj \<Rightarrow> bool" where
  "present prods productItem product \<longleftrightarrow>
     productItem \<noteq> Null \<and> productItem \<noteq> Undefined \<and>
     getById prods (vget productItem ''productId'') = Some product"

text \<open>
  The sum of price times quantity over the lines of a stored \<open>products\<close> array, in exact
  arithmetic; it is defined when every line has a number for its price and for its
  quantity, and \<open>NaN\<close> stands for "not defined".
\<close>

definition exact_line :: "jsval \<Rightarrow> rat option" where
  "exact_line l =
     (case vget l ''price'' of
        Num p \<Rightarrow> (case vget l ''quantity'' of Num q \<Rightarrow> Some (p * q) | _ \<Rightarrow> None)
      | _ \<Rightarrow> None)"

fun exact_sum :: "jsval list \<Rightarrow> rat option" where
  "exact_sum [] = Some 0"
| "exact_sum (l # ls) =
     (case exact_line l of
        None \<Rightarrow> None
      | Some x \<Rightarrow> (case exact_sum ls of None \<Rightarrow> None | Some y \<Rightarrow> Some (x + y)))"

definition lines_total :: "jsval \<Rightarrow> jsval" where
  "lines_total v =
     (case v of
        Arr ls \<Rightarrow> (case exact_sum ls of None \<Rightarrow> NaN | Some t \<Rightarrow> Num t)
      | _ \<Rightarrow> NaN)"

text \<open>A field of the record in the \<open>data\<close> of a response.\<close>

definition got :: "reply \<Rightarrow> string \<Rightarrow> jsval" where
  "got r k = (case r of Success _ _ (Item (Some m)) \<Rightarrow> jsget m k | _ \<Rightarrow> Undefined)"

section \<open>Concrete requests\<close>

text \<open>Inputs at which the theorems below are instantiated and evaluated.\<close>

definition ex_coll :: "obj list" where
  "ex_coll = [object [(''id'', Str ''u1''), (''name'', Str ''Ann''), (''updatedAt'', Str ''t0'')]]"

definition ex_partial :: obj where
  "ex_partial = object [(''updatedAt'', Str ''2000-01-01'')]"


text \<open>
  A \<open>POST /users\<close> whose body carries the id of John Doe next to a new email, then a
  \<open>PUT\<close> on that id which sets John Doe's email to the new user's.
\<close>

definition ex_dup_id_body :: obj where
  "ex_dup_id_body = object [(''id'', Str ''550e8400-e29b-41d4-a716-446655440000''),
      (''name'', Str ''Mallory''), (''email'', Str ''mallory@example.com''), (''age'', Num 40)]"

definition ex_put_email_body :: obj where
  "ex_put_email_body = object [(''name'', Str ''John Doe''), (''email'', Str ''mallory@example.com''),
      (''age'', Num 30)]"

definition ex_after_dup_id_post :: "store \<times> reply" where
  "ex_after_dup_id_post = users_post initial_store ''9b2c1d4e-0000-4000-8000-000000000001''
       ''2024-02-01T00:00:00.000Z'' ''2024-02-01T00:00:00.000Z'' ex_dup_id_body"

definition ex_after_put_email :: "store \<times> reply" where
  "ex_after_put_email = users_put (fst ex_after_dup_id_post) ''550e8400-e29b-41d4-a716-446655440000''
       ''2024-02-01T00:00:01.000Z'' ex_put_email_body"

text \<open>
  Stand-ins for the operators \<open>*\<close> and \<open>+=\<close> at the numbers used below: integers
  (and one price times 1), where the product and the sum of two doubles are exact.
\<close>

definition ex_times :: "jsval \<Rightarrow> jsval \<Rightarrow> jsval" where
  "ex_times a b =
     (case a of Num x \<Rightarrow> (case b of Num y \<Rightarrow> Num (x * y) | _ \<Rightarrow> NaN) | _ \<Rightarrow> NaN)"

definition ex_plus :: "jsval \<Rightarrow> jsval \<Rightarrow> jsval" where
  "ex_plus a b =
     (case a of Num x \<Rightarrow> (case b of Num y \<Rightarrow> Num (x + y) | _ \<Rightarrow> NaN) | _ \<Rightarrow> NaN)"

text \<open>
  A store with one user and three products priced 10, 5 and 7, the last out of stock,
  and a request for 2 of the first and 3 of the second whose first line also carries
  a price of its own.
\<close>

definition ex_pen :: obj where
  "ex_pen = object [(''id'', Str ''p1''), (''name'', Str ''Pen''), (''price'', Num 10),
      (''inStock'', Bool True)]"

definition ex_ink :: obj where
  "ex_ink = object [(''id'', Str ''p2''), (''name'', Str ''Ink''), (''price'', Num 5),
      (''inStock'', Bool True)]"

definition ex_quill :: obj where
  "ex_quill = object [(''id'', Str ''p3''), (''name'', Str ''Quill''), (''price'', Num 7),
      (''inStock'', Bool False)]"

definition ex_ann :: obj where
  "ex_ann = object [(''id'', Str ''u1''), (''name'', Str ''Ann''), (''email'', Str ''a@x.com''),
      (''age'', Num 30)]"

definition ex_shop :: store where
  "ex_shop = \<lparr> users = [ex_ann], products = [ex_pen, ex_ink, ex_quill], orders = [] \<rparr>"

definition ex_lines :: "jsval list" where
  "ex_lines = [Obj (object [(''productId'', Str ''p1''), (''quantity'', Num 2), (''price'', Num 1)]),
               Obj (object [(''productId'', Str ''p2''), (''quantity'', Num 3)])]"

definition ex_order_body :: obj where
  "ex_order_body = object [(''userId'', Str ''u1''), (''products'', Arr ex_lines)]"

text \<open>Requests that fail: an unknown user, an unknown product, a product out of stock.\<close>

definition ex_line_missing :: jsval where
  "ex_line_missing = Obj (object [(''productId'', Str ''p9''), (''quantity'', Num 1)])"

definition ex_line_out_of_stock :: jsval where
  "ex_line_out_of_stock = Obj (object [(''productId'', Str ''p3''), (''quantity'', Num 1)])"

definition ex_body_no_user :: obj where
  "ex_body_no_user = object [(''userId'', Str ''u9''), (''products'', Arr ex_lines)]"

definition ex_body_missing :: obj where
  "ex_body_missing = object [(''userId'', Str ''u1''),
      (''products'', Arr (ex_lines @ ex_line_missing # [ex_line_out_of_stock]))]"

definition ex_body_out_of_stock :: obj where
  "ex_body_out_of_stock = object [(''userId'', Str ''u1''),
      (''products'', Arr (ex_lines @ ex_line_out_of_stock # [ex_line_missing]))]"

text \<open>
  An order of the user of the store above, and a \<open>PUT\<close> for it that lists the product
  that is out of stock, at a price and a total of the caller's own.
\<close>

definition ex_shop_with_order :: store where
  "ex_shop_with_order = ex_shop\<lparr>orders :=
     [object [(''id'', Str ''o1''), (''userId'', Str ''u1''),
              (''products'', Arr [Obj (object [(''productId'', Str ''p1''), (''quantity'', Num 1),
                                              (''price'', Num 10)])]),
              (''totalAmount'', Num 10), (''status'', Str ''pending''),
              (''createdAt'', Str ''t0''), (''updatedAt'', Str ''t0'')]]\<rparr>"

definition ex_put_body :: obj where
  "ex_put_body = object [(''userId'', Str ''u1''),
      (''products'', Arr [Obj (object [(''productId'', Str ''p3''), (''quantity'', Num 2),
                                      (''price'', Num 100)])]),
      (''totalAmount'', Num 1)]"

definition ex_after_order_put :: "store \<times> reply" where
  "ex_after_order_put = orders_put ex_shop_with_order ''o1'' ''t9'' ex_put_body"

definition ex_order :: obj where
  "ex_order = hd (orders ex_shop_with_order)"

definition ex_put_lines :: "jsval list" where
  "ex_put_lines = [Obj (object [(''productId'', Str ''p3''), (''quantity'', Num 2), (''price'', Num 100)])]"

text \<open>A stand-in for the UUID format test: 36 characters.\<close>

definition ex_isUUID :: "string \<Rightarrow> bool" where
  "ex_isUUID x = (length x = 36)"

text \<open>A \<open>PATCH\<close> that renames the id of John Doe, on the seed data and on the store
  in which a second user carries John Doe's id.\<close>

definition ex_rename_body :: obj where
  "ex_rename_body = object [(''id'', Str ''00000000-0000-4000-8000-000000000000''),
      (''createdAt'', Str ''1999-01-01T00:00:00.000Z'')]"

definition ex_rename_clash_body :: obj where
  "ex_rename_clash_body = object [(''id'', Str ''00000000-0000-4000-8000-000000000000''),
      (''email'', Str ''jane.smith@example.com'')]"

definition ex_order_patch_body :: obj where
  "ex_order_patch_body = object [(''totalAmount'', Num 0), (''products'', Arr [])]"

text \<open>
  Stand-ins for the two sanitizers at the values used below. \<open>trim\<close> removes the
  blanks at both ends of a string, and of each string of an array. \<open>normalizeEmail\<close>
  lowercases an address of a domain for which the library has no rule of its own, as
  \<open>example.com\<close>.
\<close>

definition ex_lower_char :: "char \<Rightarrow> char" where
  "ex_lower_char c =
     (if of_char c \<ge> (65::nat) \<and> of_char c \<le> (90::nat) then char_of (of_char c + (32::nat)) else c)"

definition ex_trim_string :: "string \<Rightarrow> string" where
  "ex_trim_string cs = rev (dropWhile (\<lambda>c. c = CHR '' '') (rev (dropWhile (\<lambda>c. c = CHR '' '') cs)))"

definition ex_trim :: "jsval \<Rightarrow> jsval" where
  "ex_trim v =
     (case v of
        Str cs \<Rightarrow> Str (ex_trim_string cs)
      | Arr xs \<Rightarrow> Arr (map (\<lambda>x. case x of Str cs \<Rightarrow> Str (ex_trim_string cs) | _ \<Rightarrow> x) xs)
      | _ \<Rightarrow> v)"

definition ex_normalizeEmail :: "jsval \<Rightarrow> jsval" where
  "ex_normalizeEmail v = (case v of Str cs \<Rightarrow> Str (map ex_lower_char cs) | _ \<Rightarrow> v)"


text \<open>
  A stand-in for the library's conversion to a string of a value that is not one; it is
  not applied below, where the elements of the arrays are strings.
\<close>

definition ex_stringify :: "jsval \<Rightarrow> string" where
  "ex_stringify v = []"

definition ex_empty_status_body :: obj where
  "ex_empty_status_body = object [(''status'', Arr [])]"

definition ex_array_status_body :: obj where
  "ex_array_status_body = object [(''status'', Arr [Str ''pending''])]"

definition ex_after_empty_status :: "store \<times> reply" where
  "ex_after_empty_status = orders_patch_route ex_isUUID ex_stringify initial_store
       ''770e8400-e29b-41d4-a716-446655440000'' ''2024-02-01T00:00:03.000Z'' ex_empty_status_body"

definition ex_after_array_status :: "store \<times> reply" where
  "ex_after_array_status = orders_patch_route ex_isUUID ex_stringify initial_store
       ''770e8400-e29b-41d4-a716-446655440000'' ''2024-02-01T00:00:03.000Z'' ex_array_status_body"

definition ex_after_rename :: "store \<times> reply" where
  "ex_after_rename = users_patch_route ex_trim ex_normalizeEmail initial_store
       ''550e8400-e29b-41d4-a716-446655440000'' ''2024-02-01T00:00:02.000Z'' ex_rename_body"

definition ex_after_rename_dup :: "store \<times> reply" where
  "ex_after_rename_dup = users_patch_route ex_trim ex_normalizeEmail (fst ex_after_dup_id_post)
       ''550e8400-e29b-41d4-a716-446655440000'' ''2024-02-01T00:00:02.000Z'' ex_rename_body"

definition ex_after_rename_clash :: "store \<times> reply" where
  "ex_after_rename_clash = users_patch_route ex_trim ex_normalizeEmail initial_store
       ''550e8400-e29b-41d4-a716-446655440000'' ''2024-02-01T00:00:02.000Z'' ex_rename_clash_body"

definition ex_after_order_patch :: "store \<times> reply" where
  "ex_after_order_patch = orders_patch_route ex_isUUID ex_stringify initial_store
       ''770e8400-e29b-41d4-a716-446655440000'' ''2024-02-01T00:00:03.000Z'' ex_order_patch_body"











section \<open>Facts about the store\<close>

lemma findIndex_None_iff: "findIndex P xs = None \<longleftrightarrow> (\<forall>x \<in> set xs. \<not> P x)"
  by (induction xs) auto

lemma findIndex_find_None: "findIndex P xs = None \<longleftrightarrow> find P xs = None"
  by (auto simp: findIndex_None_iff find_None_iff)

lemma findIndex_Some:
  "findIndex P xs = Some i \<Longrightarrow>
     i < length xs \<and> P (xs ! i) \<and> find P xs = Some (xs ! i) \<and> (\<forall>j < i. \<not> P (xs ! j))"
proof (induction xs arbitrary: i)
  case Nil
  then show ?case by simp
next
  case (Cons x xs)
  show ?case
  proof (cases "P x")
    case True
    with Cons.prems show ?thesis by simp
  next
    case False
    with Cons.prems obtain k where k: "findIndex P xs = Some k" "i = Suc k"
      by auto
    from Cons.IH [OF k(1)] False k(2) show ?thesis
      by (auto simp: less_Suc_eq_0_disj)
  qed
qed

lemma find_Some_findIndex:
  "find P xs = Some x \<Longrightarrow> \<exists>i. findIndex P xs = Some i \<and> xs ! i = x"
proof -
  assume a: "find P xs = Some x"
  then have "findIndex P xs \<noteq> None"
    by (simp add: findIndex_find_None)
  then obtain i where i: "findIndex P xs = Some i"
    by auto
  from findIndex_Some [OF i] a have "xs ! i = x"
    by simp
  with i show ?thesis
    by blast
qed

lemma jsget_merged:
  "jsget (merged old data now) k =
     (if k = ''updatedAt'' then Str now
      else if k |\<in>| fmdom data then jsget data k else jsget old k)"
  by (simp add: merged_def jsget_def)

lemma strict_eq_Str: "strict_eq v (Str e) \<longleftrightarrow> v = Str e"
  by (cases v) auto

lemma jsget_create:
  "jsget (snd (create coll gid t1 t2 data)) k =
     (if k = ''updatedAt'' then Str t2 else if k = ''createdAt'' then Str t1
      else if k |\<in>| fmdom data then jsget data k
      else if k = ''id'' then Str gid else Undefined)"
  by (simp add: create_def jsget_def object_def Let_def)

lemma fst_create: "fst (create coll gid t1 t2 data) = coll @ [snd (create coll gid t1 t2 data)]"
  by (simp add: create_def Let_def)




section \<open>Facts about update and lookup\<close>

lemma update_absent:
  "getById coll ident = None \<Longrightarrow> update coll ident now data = (coll, None)"
  by (simp add: getById_def update_def findIndex_find_None [symmetric])

lemma update_found:
  assumes "getById coll ident = Some old"
  shows "\<exists>i. i < length coll \<and> coll ! i = old \<and>
           findIndex (\<lambda>r. strict_eq (jsget r ''id'') ident) coll = Some i \<and>
           update coll ident now data =
             (coll[i := merged old data now], Some (merged old data now))"
proof -
  from assms obtain i where i: "findIndex (\<lambda>r. strict_eq (jsget r ''id'') ident) coll = Some i"
    and old: "coll ! i = old"
    unfolding getById_def by (blast dest: find_Some_findIndex)
  from findIndex_Some [OF i] have "i < length coll"
    by simp
  moreover have "update coll ident now data =
      (coll[i := merged old data now], Some (merged old data now))"
    using i old by (simp add: update_def)
  ultimately show ?thesis
    using i old by blast
qed

lemma find_list_update_first:
  "findIndex P xs = Some i \<Longrightarrow> P m \<Longrightarrow> find P (xs[i := m]) = Some m"
proof (induction xs arbitrary: i)
  case Nil
  then show ?case by simp
next
  case (Cons x xs)
  then show ?case
    by (cases "P x") (auto split: nat.splits)
qed

lemma find_list_update_none:
  "i < length xs \<Longrightarrow> \<forall>j < length xs. j \<noteq> i \<longrightarrow> \<not> P (xs ! j) \<Longrightarrow> \<not> P m \<Longrightarrow>
   find P (xs[i := m]) = None"
  by (auto simp: find_None_iff set_conv_nth nth_list_update)

lemma products_exist_ok:
  "list_all2 (present prods) items ps \<Longrightarrow> products_exist prods items = None"
  by (induction items ps rule: list_all2_induct) (simp_all add: present_def)

lemma products_exist_missing:
  "list_all2 (present prods) pre ps \<Longrightarrow> item \<noteq> Null \<Longrightarrow> item \<noteq> Undefined \<Longrightarrow>
   getById prods (vget item ''productId'') = None \<Longrightarrow>
   products_exist prods (pre @ item # rest) =
     Some (Failure 404 (Tmpl ''Product with ID '' (vget item ''productId'') '' not found''))"
  by (induction pre ps rule: list_all2_induct) (simp_all add: present_def)







section \<open>update: shallow merge\<close>

text \<open>
  The fresh timestamp is written after the spread of the partial, so a partial that
  carries \<open>updatedAt\<close> of its own does not decide that field.
\<close>

lemma update_discards_supplied_updatedAt:
  "getById ex_coll (Str ''u1'') \<noteq> None \<and>
   ''updatedAt'' |\<in>| fmdom ex_partial \<and>
   returned (snd (update ex_coll (Str ''u1'') ''t1'' ex_partial)) ''updatedAt'' = Str ''t1'' \<and>
   jsget ex_partial ''updatedAt'' = Str ''2000-01-01''"
  by (simp add: ex_coll_def ex_partial_def getById_def update_def merged_def jsget_def object_def
      returned_def)

text \<open>
  C7: \<open>update(id, partial)\<close> is a shallow merge. If no record has the id, it returns
  \<open>null\<close> and the collection is unchanged. Otherwise the first record with the id is
  replaced, in place, by the merged record, which is also returned, and every other
  record is untouched. In the merged record \<open>updatedAt\<close> is refreshed to the current
  timestamp; of the other fields, each one that occurs in the partial has the partial's
  value and each one that is absent from it keeps its previous value.
\<close>

theorem update_shallow_merge:
  "(getById coll ident = None \<longrightarrow> update coll ident now data = (coll, None)) \<and>
   (\<forall>old. getById coll ident = Some old \<longrightarrow>
      (\<exists>i m. i < length coll \<and> coll ! i = old \<and>
         update coll ident now data = (coll[i := m], Some m) \<and>
         jsget m ''updatedAt'' = Str now \<and>
         (\<forall>k. k \<noteq> ''updatedAt'' \<longrightarrow>
            jsget m k = (if k |\<in>| fmdom data then jsget data k else jsget old k))))"
proof (intro conjI allI impI)
  assume "getById coll ident = None"
  then have "findIndex (\<lambda>r. strict_eq (jsget r ''id'') ident) coll = None"
    by (simp add: getById_def findIndex_find_None)
  then show "update coll ident now data = (coll, None)"
    by (simp add: update_def)
next
  fix old
  assume "getById coll ident = Some old"
  then obtain i where i: "findIndex (\<lambda>r. strict_eq (jsget r ''id'') ident) coll = Some i"
    and old: "coll ! i = old"
    unfolding getById_def by (blast dest: find_Some_findIndex)
  from findIndex_Some [OF i] have len: "i < length coll"
    by simp
  have upd: "update coll ident now data = (coll[i := merged old data now], Some (merged old data now))"
    using i old by (simp add: update_def)
  have "jsget (merged old data now) ''updatedAt'' = Str now"
    by (simp add: jsget_merged)
  moreover have "\<forall>k. k \<noteq> ''updatedAt'' \<longrightarrow>
      jsget (merged old data now) k = (if k |\<in>| fmdom data then jsget data k else jsget old k)"
    by (simp add: jsget_merged)
  ultimately show "\<exists>i m. i < length coll \<and> coll ! i = old \<and>
         update coll ident now data = (coll[i := m], Some m) \<and>
         jsget m ''updatedAt'' = Str now \<and>
         (\<forall>k. k \<noteq> ''updatedAt'' \<longrightarrow>
            jsget m k = (if k |\<in>| fmdom data then jsget data k else jsget old k))"
    using len old upd by blast
qed

theorem update_shallow_merge_witness:
  "getById ex_coll (Str ''u1'') = Some (hd ex_coll) \<and>
   (\<exists>i m. i < length ex_coll \<and> ex_coll ! i = hd ex_coll \<and>
      update ex_coll (Str ''u1'') ''t1'' ex_partial = (ex_coll[i := m], Some m) \<and>
      jsget m ''updatedAt'' = Str ''t1'' \<and>
      (\<forall>k. k \<noteq> ''updatedAt'' \<longrightarrow>
         jsget m k = (if k |\<in>| fmdom ex_partial then jsget ex_partial k else jsget (hd ex_coll) k)))"
proof -
  have g: "getById ex_coll (Str ''u1'') = Some (hd ex_coll)"
    by (simp add: ex_coll_def getById_def jsget_def object_def)
  from update_shallow_merge [of ex_coll "Str ''u1''" "''t1''" ex_partial] g
  show ?thesis
    by blast
qed


section \<open>Email uniqueness across the users operations\<close>

text \<open>
  C4 at a failing input. From the seed data, where ids and emails are pairwise
  different, \<open>POST /users\<close> with a body that carries John Doe's id and a new email is
  accepted, since \<open>create\<close> spreads the body over the generated id; the emails are still
  pairwise different. A \<open>PUT\<close> on that id with the new user's email is then accepted as
  well, because the clash check skips every user whose id equals the path id, and two
  stored users end up with the same email.
\<close>

theorem users_put_breaks_email_uniqueness:
  "distinct (emails initial_store) \<and> distinct (ids initial_store) \<and>
   status (snd ex_after_dup_id_post) = 201 \<and>
   ids (fst ex_after_dup_id_post) =
     [Str ''550e8400-e29b-41d4-a716-446655440000'', Str ''550e8400-e29b-41d4-a716-446655440001'',
      Str ''550e8400-e29b-41d4-a716-446655440000''] \<and>
   distinct (emails (fst ex_after_dup_id_post)) \<and>
   status (snd ex_after_put_email) = 200 \<and>
   emails (fst ex_after_put_email) =
     [Str ''mallory@example.com'', Str ''jane.smith@example.com'', Str ''mallory@example.com''] \<and>
   \<not> distinct (emails (fst ex_after_put_email))"
  by code_simp


section \<open>Uniqueness of emails while ids are unique\<close>

lemma emails_update:
  "emails (s\<lparr>users := (users s)[i := m]\<rparr>) = (emails s)[i := jsget m ''email'']"
  by (simp add: emails_def map_update)

lemma ids_update:
  "ids (s\<lparr>users := (users s)[i := m]\<rparr>) = (ids s)[i := jsget m ''id'']"
  by (simp add: ids_def map_update)

lemma merge_keeps_uniqueness:
  assumes ids: "distinct (ids s)" and em: "distinct (emails s)"
    and old: "getById (users s) (Str ident) = Some old"
    and noid: "''id'' |\<notin>| fmdom body"
    and ok: "''email'' |\<notin>| fmdom body \<or>
       jsget body ''email'' = jsget old ''email'' \<or>
       (\<exists>e. jsget body ''email'' = Str e \<and>
          find (\<lambda>user. strict_eq (jsget user ''email'') (jsget body ''email'') \<and>
                        \<not> strict_eq (jsget user ''id'') (Str ident)) (users s) = None)"
  shows "distinct (ids (s\<lparr>users := fst (update (users s) (Str ident) now body)\<rparr>)) \<and>
         distinct (emails (s\<lparr>users := fst (update (users s) (Str ident) now body)\<rparr>))"
proof -
  from update_found [OF old, of now body] obtain i where i: "i < length (users s)"
    "users s ! i = old"
    and upd: "update (users s) (Str ident) now body =
        ((users s)[i := merged old body now], Some (merged old body now))"
    by blast
  have pid: "strict_eq (jsget old ''id'') (Str ident)"
    using old by (auto simp: getById_def dest: find_Some_iff [THEN iffD1])
  then have oid: "jsget old ''id'' = Str ident"
    by (simp add: strict_eq_Str)
  have "jsget (merged old body now) ''id'' = jsget old ''id''"
    using noid by (simp add: jsget_merged)
  then have "(ids s)[i := jsget (merged old body now) ''id''] = ids s"
    using i by (simp add: ids_def list_update_same_conv)
  then have 1: "distinct (ids (s\<lparr>users := fst (update (users s) (Str ident) now body)\<rparr>))"
    using ids by (simp add: upd ids_update)
  have other: "emails s ! j \<noteq> Str e"
    if j: "j < length (users s)" "j \<noteq> i"
      and none: "find (\<lambda>user. strict_eq (jsget user ''email'') (Str e) \<and>
                        \<not> strict_eq (jsget user ''id'') (Str ident)) (users s) = None"
    for j e
  proof
    assume eq: "emails s ! j = Str e"
    have "ids s ! j \<noteq> ids s ! i"
      using ids j i(1) by (simp add: distinct_conv_nth ids_def)
    then have "jsget (users s ! j) ''id'' \<noteq> Str ident"
      using j i oid by (simp add: ids_def)
    then have "\<not> strict_eq (jsget (users s ! j) ''id'') (Str ident)"
      by (simp add: strict_eq_Str)
    moreover have "strict_eq (jsget (users s ! j) ''email'') (Str e)"
      using eq j by (simp add: emails_def)
    moreover have "users s ! j \<in> set (users s)"
      using j by simp
    ultimately show False
      using none by (auto simp: find_None_iff)
  qed
  have 2: "distinct ((emails s)[i := jsget (merged old body now) ''email''])"
  proof (cases "''email'' |\<in>| fmdom body")
    case False
    then have "jsget (merged old body now) ''email'' = emails s ! i"
      using i by (simp add: jsget_merged emails_def)
    then show ?thesis
      using em by simp
  next
    case True
    then have m: "jsget (merged old body now) ''email'' = jsget body ''email''"
      by (simp add: jsget_merged)
    show ?thesis
    proof (cases "jsget body ''email'' = jsget old ''email''")
      case same: True
      then have "jsget (merged old body now) ''email'' = emails s ! i"
        using i m by (simp add: emails_def)
      then show ?thesis
        using em by simp
    next
      case False
      with ok True obtain e where e: "jsget body ''email'' = Str e"
        and none: "find (\<lambda>user. strict_eq (jsget user ''email'') (Str e) \<and>
                        \<not> strict_eq (jsget user ''id'') (Str ident)) (users s) = None"
        by auto
      have "Str e \<notin> set (emails s) - {emails s ! i}"
      proof
        assume "Str e \<in> set (emails s) - {emails s ! i}"
        then obtain j where "j < length (emails s)" "emails s ! j = Str e" "emails s ! j \<noteq> emails s ! i"
          by (auto simp: in_set_conv_nth)
        then have "j < length (users s)" "j \<noteq> i" "emails s ! j = Str e"
          by (auto simp: emails_def)
        from other [OF this(1,2) none] this(3) show False
          by simp
      qed
      with em show ?thesis
        by (simp add: m e distinct_list_update)
    qed
  qed
  then have "distinct (emails (s\<lparr>users := fst (update (users s) (Str ident) now body)\<rparr>))"
    by (simp add: upd emails_update)
  with 1 show ?thesis
    by simp
qed

lemma distinct_remove_nth:
  "distinct ys \<Longrightarrow> distinct (take i ys @ drop (Suc i) ys)"
  using set_take_disj_set_drop_if_distinct [of ys i "Suc i"] by simp


text \<open>
  What the duplicate checks of the users handlers do achieve: from a store in which
  both the ids and the emails are pairwise different, a create whose generated id is
  new, a replace, a partial update and a delete each leave ids and emails pairwise
  different, as long as the body carries no \<open>id\<close> and its email, where it has one, is a
  (for \<open>PATCH\<close>: non-empty) string. The sequence of requests in
  the section on email uniqueness above leaves this regime at its first request.
\<close>

lemma users_operations_keep_uniqueness:
  assumes ids: "distinct (ids s)" and em: "distinct (emails s)"
  shows "(''id'' |\<notin>| fmdom body \<and> (\<exists>e. jsget body ''email'' = Str e) \<and> Str gid \<notin> set (ids s) \<longrightarrow>
           distinct (ids (fst (users_post s gid t1 t2 body))) \<and>
           distinct (emails (fst (users_post s gid t1 t2 body)))) \<and>
         (''id'' |\<notin>| fmdom body \<and> (\<exists>e. jsget body ''email'' = Str e) \<longrightarrow>
           distinct (ids (fst (users_put s ident now body))) \<and>
           distinct (emails (fst (users_put s ident now body)))) \<and>
         (''id'' |\<notin>| fmdom body \<and>
          (''email'' |\<notin>| fmdom body \<or> (\<exists>e. e \<noteq> [] \<and> jsget body ''email'' = Str e)) \<longrightarrow>
           distinct (ids (fst (users_patch s ident now body))) \<and>
           distinct (emails (fst (users_patch s ident now body)))) \<and>
         distinct (ids (fst (users_delete s ident))) \<and>
         distinct (emails (fst (users_delete s ident)))"
proof (intro conjI impI; (elim conjE exE)?)
  fix e
  assume noid: "''id'' |\<notin>| fmdom body" and e: "jsget body ''email'' = Str e"
    and fresh: "Str gid \<notin> set (ids s)"
  define new where "new = snd (create (users s) gid t1 t2 body)"
  have newid: "jsget new ''id'' = Str gid"
    using noid by (simp add: new_def jsget_create)
  have "''email'' |\<in>| fmdom body"
    using e by (auto simp: jsget_def split: option.splits intro: fmdomI)
  then have newem: "jsget new ''email'' = Str e"
    using e by (simp add: new_def jsget_create)
  have "distinct (ids (fst (users_post s gid t1 t2 body))) \<and>
        distinct (emails (fst (users_post s gid t1 t2 body)))"
  proof (cases "find (\<lambda>user. strict_eq (jsget user ''email'') (jsget body ''email'')) (getAll (users s))")
    case (Some a)
    then show ?thesis
      using ids em by (simp add: users_post_def)
  next
    case None
    then have absent: "Str e \<notin> set (emails s)"
      by (auto simp: find_None_iff getAll_def emails_def e strict_eq_Str)
    have st: "fst (users_post s gid t1 t2 body) = s\<lparr>users := users s @ [new]\<rparr>"
    proof -
      have "create (users s) gid t1 t2 body = (users s @ [new], new)"
        using fst_create [of "users s" gid t1 t2 body] by (simp add: new_def prod_eq_iff)
      with None show ?thesis
        by (simp add: users_post_def)
    qed
    have "ids (s\<lparr>users := users s @ [new]\<rparr>) = ids s @ [Str gid]"
      by (simp add: ids_def newid)
    moreover have "emails (s\<lparr>users := users s @ [new]\<rparr>) = emails s @ [Str e]"
      by (simp add: emails_def newem)
    ultimately show ?thesis
      using ids em fresh absent by (simp add: st)
  qed
  then show "distinct (ids (fst (users_post s gid t1 t2 body)))"
    and "distinct (emails (fst (users_post s gid t1 t2 body)))"
    by simp_all
next
  fix e
  assume noid: "''id'' |\<notin>| fmdom body" and e: "jsget body ''email'' = Str e"
  have "distinct (ids (fst (users_put s ident now body))) \<and>
        distinct (emails (fst (users_put s ident now body)))"
  proof (cases "getById (users s) (Str ident)")
    case None
    then show ?thesis
      using ids em by (simp add: users_put_def)
  next
    case (Some old)
    show ?thesis
    proof (cases "\<not> strict_eq (jsget body ''email'') (jsget old ''email'') \<and>
             find (\<lambda>user. strict_eq (jsget user ''email'') (jsget body ''email'') \<and>
                           \<not> strict_eq (jsget user ''id'') (Str ident))
               (getAll (users s)) \<noteq> None")
      case True
      then show ?thesis
        using ids em Some by (simp add: users_put_def)
    next
      case False
      then have "jsget body ''email'' = jsget old ''email'' \<or>
         (\<exists>e. jsget body ''email'' = Str e \<and>
            find (\<lambda>user. strict_eq (jsget user ''email'') (jsget body ''email'') \<and>
                          \<not> strict_eq (jsget user ''id'') (Str ident)) (users s) = None)"
        using e by (cases "jsget old ''email''") (auto simp: getAll_def)
      from merge_keeps_uniqueness [OF ids em Some noid, of now] this
      have "distinct (ids (s\<lparr>users := fst (update (users s) (Str ident) now body)\<rparr>)) \<and>
         distinct (emails (s\<lparr>users := fst (update (users s) (Str ident) now body)\<rparr>))"
        by blast
      moreover have "users_put s ident now body =
          (case update (users s) (Str ident) now body of
             (coll, updatedUser) \<Rightarrow>
               (s\<lparr>users := coll\<rparr>,
                Success 200 (Some (Lit ''User updated successfully'')) (Item updatedUser)))"
        unfolding users_put_def Some option.case if_not_P [OF False] ..
      then have "fst (users_put s ident now body) =
          s\<lparr>users := fst (update (users s) (Str ident) now body)\<rparr>"
        by (simp add: case_prod_beta)
      ultimately show ?thesis
        by simp
    qed
  qed
  then show "distinct (ids (fst (users_put s ident now body)))"
    and "distinct (emails (fst (users_put s ident now body)))"
    by simp_all
next
  assume noid: "''id'' |\<notin>| fmdom body"
    and e: "''email'' |\<notin>| fmdom body \<or> (\<exists>e. e \<noteq> [] \<and> jsget body ''email'' = Str e)"
  have "distinct (ids (fst (users_patch s ident now body))) \<and>
        distinct (emails (fst (users_patch s ident now body)))"
  proof (cases "getById (users s) (Str ident)")
    case None
    then show ?thesis
      using ids em by (simp add: users_patch_def)
  next
    case (Some old)
    show ?thesis
    proof (cases "truthy (jsget body ''email'') \<and>
             \<not> strict_eq (jsget body ''email'') (jsget old ''email'') \<and>
             find (\<lambda>user. strict_eq (jsget user ''email'') (jsget body ''email'') \<and>
                           \<not> strict_eq (jsget user ''id'') (Str ident))
               (getAll (users s)) \<noteq> None")
      case True
      then show ?thesis
        using ids em Some by (simp add: users_patch_def)
    next
      case False
      have "''email'' |\<notin>| fmdom body \<or> jsget body ''email'' = jsget old ''email'' \<or>
         (\<exists>e. jsget body ''email'' = Str e \<and>
            find (\<lambda>user. strict_eq (jsget user ''email'') (jsget body ''email'') \<and>
                          \<not> strict_eq (jsget user ''id'') (Str ident)) (users s) = None)"
      proof (cases "''email'' |\<in>| fmdom body")
        case False
        then show ?thesis by simp
      next
        case True
        with e obtain x where x: "x \<noteq> []" "jsget body ''email'' = Str x"
          by auto
        with False show ?thesis
          by (cases "jsget old ''email''") (auto simp: getAll_def)
      qed
      from merge_keeps_uniqueness [OF ids em Some noid this, of now]
      have "distinct (ids (s\<lparr>users := fst (update (users s) (Str ident) now body)\<rparr>)) \<and>
         distinct (emails (s\<lparr>users := fst (update (users s) (Str ident) now body)\<rparr>))" .
      moreover have "users_patch s ident now body =
          (case update (users s) (Str ident) now body of
             (coll, updatedUser) \<Rightarrow>
               (s\<lparr>users := coll\<rparr>,
                Success 200 (Some (Lit ''User updated successfully'')) (Item updatedUser)))"
        unfolding users_patch_def Some option.case if_not_P [OF False] ..
      then have "fst (users_patch s ident now body) =
          s\<lparr>users := fst (update (users s) (Str ident) now body)\<rparr>"
        by (simp add: case_prod_beta)
      ultimately show ?thesis
        by simp
    qed
  qed
  then show "distinct (ids (fst (users_patch s ident now body)))"
    and "distinct (emails (fst (users_patch s ident now body)))"
    by simp_all
next
  have "distinct (ids (fst (users_delete s ident))) \<and> distinct (emails (fst (users_delete s ident)))"
  proof (cases "findIndex (\<lambda>r. strict_eq (jsget r ''id'') (Str ident)) (users s)")
    case None
    then show ?thesis
      using ids em by (simp add: users_delete_def delete_def)
  next
    case (Some i)
    then have st: "fst (users_delete s ident) = s\<lparr>users := take i (users s) @ drop (Suc i) (users s)\<rparr>"
      by (simp add: users_delete_def delete_def)
    have "ids (s\<lparr>users := take i (users s) @ drop (Suc i) (users s)\<rparr>) =
        take i (ids s) @ drop (Suc i) (ids s)"
      by (simp add: ids_def take_map drop_map)
    moreover have "emails (s\<lparr>users := take i (users s) @ drop (Suc i) (users s)\<rparr>) =
        take i (emails s) @ drop (Suc i) (emails s)"
      by (simp add: emails_def take_map drop_map)
    ultimately show ?thesis
      using distinct_remove_nth [OF ids, of i] distinct_remove_nth [OF em, of i]
      by (simp only: st)
  qed
  then show "distinct (ids (fst (users_delete s ident)))"
    and "distinct (emails (fst (users_delete s ident)))"
    by simp_all
qed


section \<open>PUT /orders\<close>

text \<open>
  C8: \<open>PUT /orders/:id\<close> answers 404 when the order, the user of the body, or (first
  in request order) a listed product is missing. When they all exist it answers 200,
  whether or not the products are in stock, and replaces the order by the merge of the
  body into it: the stored \<open>products\<close> and \<open>totalAmount\<close> are the body's, as supplied.
  Nothing is recomputed: on the store above, a \<open>PUT\<close> listing 2 of the out-of-stock
  product, at a price of 100 where the store says 7, with \<open>totalAmount\<close> 1, is accepted,
  and the stored total 1 differs from the sum 200 over the stored lines.
\<close>

theorem orders_put_as_supplied:
  "(getById (orders s) (Str ident) = None \<longrightarrow>
      orders_put s ident now body = (s, Failure 404 (Lit ''Order not found''))) \<and>
   (\<forall>existing. getById (orders s) (Str ident) = Some existing \<and>
      getById (users s) (jsget body ''userId'') = None \<longrightarrow>
      orders_put s ident now body = (s, Failure 404 (Lit ''User not found''))) \<and>
   (\<forall>existing user pre ps item rest.
      getById (orders s) (Str ident) = Some existing \<and>
      getById (users s) (jsget body ''userId'') = Some user \<and>
      jsget body ''products'' = Arr (pre @ item # rest) \<and>
      list_all2 (present (products s)) pre ps \<and> item \<noteq> Null \<and> item \<noteq> Undefined \<and>
      getById (products s) (vget item ''productId'') = None \<longrightarrow>
      orders_put s ident now body =
        (s, Failure 404 (Tmpl ''Product with ID '' (vget item ''productId'') '' not found''))) \<and>
   (\<forall>existing user items ps.
      getById (orders s) (Str ident) = Some existing \<and>
      getById (users s) (jsget body ''userId'') = Some user \<and>
      jsget body ''products'' = Arr items \<and>
      list_all2 (present (products s)) items ps \<and>
      ''totalAmount'' |\<in>| fmdom body \<longrightarrow>
      (\<exists>i. i < length (orders s) \<and> orders s ! i = existing \<and>
         orders_put s ident now body =
           (s\<lparr>orders := (orders s)[i := merged existing body now]\<rparr>,
            Success 200 (Some (Lit ''Order updated successfully''))
              (Item (Some (merged existing body now)))) \<and>
         jsget (merged existing body now) ''products'' = Arr items \<and>
         jsget (merged existing body now) ''totalAmount'' = jsget body ''totalAmount'')) \<and>
   (status (snd ex_after_order_put) = 200 \<and>
    getById (products ex_shop_with_order) (Str ''p3'') = Some ex_quill \<and>
    jsget ex_quill ''inStock'' = Bool False \<and> jsget ex_quill ''price'' = Num 7 \<and>
    got (orders_get (fst ex_after_order_put) ''o1'') ''totalAmount'' = Num 1 \<and>
    lines_total (got (orders_get (fst ex_after_order_put) ''o1'') ''products'') = Num 200)"
proof (intro conjI allI impI; (elim conjE)?)
  assume "getById (orders s) (Str ident) = None"
  then show "orders_put s ident now body = (s, Failure 404 (Lit ''Order not found''))"
    by (simp add: orders_put_def)
next
  fix existing
  assume "getById (orders s) (Str ident) = Some existing"
    and "getById (users s) (jsget body ''userId'') = None"
  then show "orders_put s ident now body = (s, Failure 404 (Lit ''User not found''))"
    by (simp add: orders_put_def)
next
  fix existing user pre ps item rest
  assume o: "getById (orders s) (Str ident) = Some existing"
    and u: "getById (users s) (jsget body ''userId'') = Some user"
    and l: "jsget body ''products'' = Arr (pre @ item # rest)"
    and a: "list_all2 (present (products s)) pre ps"
    and n: "item \<noteq> Null" "item \<noteq> Undefined"
    and m: "getById (products s) (vget item ''productId'') = None"
  from products_exist_missing [OF a n m, of rest] o u l
  show "orders_put s ident now body =
      (s, Failure 404 (Tmpl ''Product with ID '' (vget item ''productId'') '' not found''))"
    by (simp add: orders_put_def iterate_def)
next
  fix existing user items ps
  assume o: "getById (orders s) (Str ident) = Some existing"
    and u: "getById (users s) (jsget body ''userId'') = Some user"
    and l: "jsget body ''products'' = Arr items"
    and a: "list_all2 (present (products s)) items ps"
    and t: "''totalAmount'' |\<in>| fmdom body"
  from update_found [OF o, of now body] obtain i where i: "i < length (orders s)"
    "orders s ! i = existing"
    and upd: "update (orders s) (Str ident) now body =
        ((orders s)[i := merged existing body now], Some (merged existing body now))"
    by blast
  have put: "orders_put s ident now body =
      (s\<lparr>orders := (orders s)[i := merged existing body now]\<rparr>,
       Success 200 (Some (Lit ''Order updated successfully''))
         (Item (Some (merged existing body now))))"
    using o u l products_exist_ok [OF a] upd by (simp add: orders_put_def iterate_def)
  have "''products'' |\<in>| fmdom body"
    using l by (auto simp: jsget_def split: option.splits intro: fmdomI)
  then have p: "jsget (merged existing body now) ''products'' = Arr items"
    using l by (simp add: jsget_merged)
  have q: "jsget (merged existing body now) ''totalAmount'' = jsget body ''totalAmount''"
    using t by (simp add: jsget_merged)
  from i put p q
  show "\<exists>i. i < length (orders s) \<and> orders s ! i = existing \<and>
         orders_put s ident now body =
           (s\<lparr>orders := (orders s)[i := merged existing body now]\<rparr>,
            Success 200 (Some (Lit ''Order updated successfully''))
              (Item (Some (merged existing body now)))) \<and>
         jsget (merged existing body now) ''products'' = Arr items \<and>
         jsget (merged existing body now) ''totalAmount'' = jsget body ''totalAmount''"
    by blast
next
  show "status (snd ex_after_order_put) = 200"
    by code_simp
  show "getById (products ex_shop_with_order) (Str ''p3'') = Some ex_quill"
    by code_simp
  show "jsget ex_quill ''inStock'' = Bool False"
    by code_simp
  show "jsget ex_quill ''price'' = Num 7"
    by code_simp
  show "got (orders_get (fst ex_after_order_put) ''o1'') ''totalAmount'' = Num 1"
    by code_simp
  show "lines_total (got (orders_get (fst ex_after_order_put) ''o1'') ''products'') = Num 200"
    by code_simp
qed

theorem orders_put_as_supplied_witness:
  "getById (orders ex_shop_with_order) (Str ''o1'') = Some ex_order \<and>
   getById (users ex_shop_with_order) (jsget ex_put_body ''userId'') = Some ex_ann \<and>
   jsget ex_put_body ''products'' = Arr ex_put_lines \<and>
   list_all2 (present (products ex_shop_with_order)) ex_put_lines [ex_quill] \<and>
   ''totalAmount'' |\<in>| fmdom ex_put_body \<and>
   (\<exists>i. i < length (orders ex_shop_with_order) \<and> orders ex_shop_with_order ! i = ex_order \<and>
      orders_put ex_shop_with_order ''o1'' ''t9'' ex_put_body =
        (ex_shop_with_order\<lparr>orders := (orders ex_shop_with_order)[i := merged ex_order ex_put_body ''t9'']\<rparr>,
         Success 200 (Some (Lit ''Order updated successfully''))
           (Item (Some (merged ex_order ex_put_body ''t9'')))) \<and>
      jsget (merged ex_order ex_put_body ''t9'') ''products'' = Arr ex_put_lines \<and>
      jsget (merged ex_order ex_put_body ''t9'') ''totalAmount'' = Num 1) \<and>
   getById (orders ex_shop_with_order) (Str ''o9'') = None \<and>
   orders_put ex_shop_with_order ''o9'' ''t9'' ex_put_body = (ex_shop_with_order, Failure 404 (Lit ''Order not found''))"
proof -
  note defs = ex_shop_with_order_def ex_put_body_def ex_order_def ex_put_lines_def ex_shop_def ex_ann_def
    ex_pen_def ex_ink_def ex_quill_def getById_def jsget_def vget_def object_def present_def
  have o: "getById (orders ex_shop_with_order) (Str ''o1'') = Some ex_order"
    by (simp add: defs)
  have u: "getById (users ex_shop_with_order) (jsget ex_put_body ''userId'') = Some ex_ann"
    by (simp add: defs)
  have l: "jsget ex_put_body ''products'' = Arr ex_put_lines"
    by (simp add: defs)
  have a: "list_all2 (present (products ex_shop_with_order)) ex_put_lines [ex_quill]"
    by (simp add: defs)
  have t: "''totalAmount'' |\<in>| fmdom ex_put_body"
    by (simp add: defs)
  have v: "jsget ex_put_body ''totalAmount'' = Num 1"
    by (simp add: defs)
  have n: "getById (orders ex_shop_with_order) (Str ''o9'') = None"
    by (simp add: defs)
  note T = orders_put_as_supplied [of ex_shop_with_order "''o1''" "''t9''" ex_put_body]
  note N = orders_put_as_supplied [of ex_shop_with_order "''o9''" "''t9''" ex_put_body]
  from T o u l a t have "\<exists>i. i < length (orders ex_shop_with_order) \<and> orders ex_shop_with_order ! i = ex_order \<and>
      orders_put ex_shop_with_order ''o1'' ''t9'' ex_put_body =
        (ex_shop_with_order\<lparr>orders := (orders ex_shop_with_order)[i := merged ex_order ex_put_body ''t9'']\<rparr>,
         Success 200 (Some (Lit ''Order updated successfully''))
           (Item (Some (merged ex_order ex_put_body ''t9'')))) \<and>
      jsget (merged ex_order ex_put_body ''t9'') ''products'' = Arr ex_put_lines \<and>
      jsget (merged ex_order ex_put_body ''t9'') ''totalAmount'' = jsget ex_put_body ''totalAmount''"
    by blast
  then have r: "\<exists>i. i < length (orders ex_shop_with_order) \<and> orders ex_shop_with_order ! i = ex_order \<and>
      orders_put ex_shop_with_order ''o1'' ''t9'' ex_put_body =
        (ex_shop_with_order\<lparr>orders := (orders ex_shop_with_order)[i := merged ex_order ex_put_body ''t9'']\<rparr>,
         Success 200 (Some (Lit ''Order updated successfully''))
           (Item (Some (merged ex_order ex_put_body ''t9'')))) \<and>
      jsget (merged ex_order ex_put_body ''t9'') ''products'' = Arr ex_put_lines \<and>
      jsget (merged ex_order ex_put_body ''t9'') ''totalAmount'' = Num 1"
    by (simp only: v)
  from N n have "orders_put ex_shop_with_order ''o9'' ''t9'' ex_put_body =
      (ex_shop_with_order, Failure 404 (Lit ''Order not found''))"
    by blast
  with o u l a t r n show ?thesis
    by blast
qed

section \<open>POST /orders: snapshots and total\<close>

lemma validate_products_ok:
  "list_all2 (available prods) items ps \<Longrightarrow>
   validate_products star pluseq prods items tot acc =
     Inr (foldl pluseq tot (map2 (line_total star) items ps), acc @ map2 snapshot items ps)"
proof (induction items ps arbitrary: tot acc rule: list_all2_induct)
  case Nil
  then show ?case by simp
next
  case (Cons x xs y ys)
  then show ?case by (simp add: available_def line_total_def)
qed

lemma validate_products_missing:
  "list_all2 (available prods) pre ps \<Longrightarrow> item \<noteq> Null \<Longrightarrow> item \<noteq> Undefined \<Longrightarrow>
   getById prods (vget item ''productId'') = None \<Longrightarrow>
   validate_products star pluseq prods (pre @ item # rest) tot acc =
     Inl (Failure 404 (Tmpl ''Product with ID '' (vget item ''productId'') '' not found''))"
proof (induction pre ps arbitrary: tot acc rule: list_all2_induct)
  case Nil
  then show ?case by simp
next
  case (Cons x xs y ys)
  then show ?case by (simp add: available_def)
qed

lemma validate_products_out_of_stock:
  "list_all2 (available prods) pre ps \<Longrightarrow> item \<noteq> Null \<Longrightarrow> item \<noteq> Undefined \<Longrightarrow>
   getById prods (vget item ''productId'') = Some p \<Longrightarrow> \<not> truthy (jsget p ''inStock'') \<Longrightarrow>
   validate_products star pluseq prods (pre @ item # rest) tot acc =
     Inl (Failure 400 (Tmpl ''Product '' (jsget p ''name'') '' is out of stock''))"
proof (induction pre ps arbitrary: tot acc rule: list_all2_induct)
  case Nil
  then show ?case by simp
next
  case (Cons x xs y ys)
  then show ?case by (simp add: available_def)
qed

lemma validate_products_offender:
  "\<exists>item \<in> set items. offending prods item \<Longrightarrow>
   \<forall>item \<in> set items. item \<noteq> Null \<and> item \<noteq> Undefined \<Longrightarrow>
   \<exists>m. validate_products star pluseq prods items tot acc = Inl (Failure 404 m) \<or>
       validate_products star pluseq prods items tot acc = Inl (Failure 400 m)"
proof (induction items arbitrary: tot acc)
  case Nil
  then show ?case by simp
next
  case (Cons x xs)
  show ?case
  proof (cases "offending prods x")
    case True
    with Cons.prems(2) show ?thesis
      by (auto simp: offending_def split: option.splits)
  next
    case False
    with Cons.prems have "\<exists>item \<in> set xs. offending prods item"
      and "\<forall>item \<in> set xs. item \<noteq> Null \<and> item \<noteq> Undefined"
      by auto
    from Cons.IH [OF this] False Cons.prems(2) show ?thesis
      by (auto simp: offending_def split: option.splits)
  qed
qed

text \<open>
  C1: a \<open>POST /orders\<close> for a stored user whose lines each find a stored product with
  \<open>inStock\<close> true is answered 201 and appends one order. Its \<open>products\<close> has one
  line per request line, in order, and each is exactly
  \<open>{productId, quantity, price}\<close> with the \<open>productId\<close> and the \<open>quantity\<close> of the
  request line and the \<open>price\<close> of the stored product (a price in the request line
  is not read). Its \<open>totalAmount\<close> is the sum, accumulated from 0 in request order
  with the operators \<open>*\<close> and \<open>+=\<close> of the language, of price times quantity over
  the lines, and its status is "pending". For prices 10 and 5 with quantities 2 and 3,
  where these operators give 20, 15, 20 and 35, the total is 35.
\<close>

theorem orders_post_snapshot_total:
  assumes user: "getById (users s) (jsget body ''userId'') = Some user"
    and lines: "jsget body ''products'' = Arr items"
    and avail: "list_all2 (available (products s)) items ps"
  shows "\<exists>newOrder stored.
     orders_post star pluseq s gid t1 t2 body =
       (s\<lparr>orders := orders s @ [newOrder]\<rparr>,
        Success 201 (Some (Lit ''Order created successfully'')) (Item (Some newOrder))) \<and>
     jsget newOrder ''userId'' = jsget body ''userId'' \<and>
     jsget newOrder ''products'' = Arr stored \<and>
     length stored = length items \<and>
     (\<forall>i < length items.
        stored ! i =
          Obj (object [(''productId'', vget (items ! i) ''productId''),
                       (''quantity'', vget (items ! i) ''quantity''),
                       (''price'', jsget (ps ! i) ''price'')])) \<and>
     jsget newOrder ''totalAmount'' =
       foldl pluseq (Num 0)
         (map2 (\<lambda>productItem product.
                  star (jsget product ''price'') (vget productItem ''quantity'')) items ps) \<and>
     jsget newOrder ''status'' = Str ''pending'' \<and>
     (map (\<lambda>product. jsget product ''price'') ps = [Num 10, Num 5] \<and>
      map (\<lambda>productItem. vget productItem ''quantity'') items = [Num 2, Num 3] \<and>
      star (Num 10) (Num 2) = Num 20 \<and> star (Num 5) (Num 3) = Num 15 \<and>
      pluseq (Num 0) (Num 20) = Num 20 \<and> pluseq (Num 20) (Num 15) = Num 35 \<longrightarrow>
      jsget newOrder ''totalAmount'' = Num 35)"
proof -
  define tot where "tot = foldl pluseq (Num 0) (map2 (line_total star) items ps)"
  define stored where "stored = map2 snapshot items ps"
  define data where "data = object [(''userId'', jsget body ''userId''),
      (''products'', Arr stored), (''totalAmount'', tot), (''status'', Str ''pending'')]"
  define newOrder where "newOrder = snd (create (orders s) gid t1 t2 data)"
  have len: "length items = length ps"
    using avail by (rule list_all2_lengthD)
  have vp: "validate_products star pluseq (products s) items (Num 0) [] = Inr (tot, stored)"
    using validate_products_ok [OF avail, where tot = "Num 0" and acc = "[]" and star = star
        and pluseq = pluseq]
    by (simp add: tot_def stored_def)
  have cr: "create (orders s) gid t1 t2 data = (orders s @ [newOrder], newOrder)"
    using fst_create [of "orders s" gid t1 t2 data] by (simp add: newOrder_def prod_eq_iff)
  have post: "orders_post star pluseq s gid t1 t2 body =
       (s\<lparr>orders := orders s @ [newOrder]\<rparr>,
        Success 201 (Some (Lit ''Order created successfully'')) (Item (Some newOrder)))"
    using user lines vp cr by (simp add: orders_post_def iterate_def data_def)
  have f1: "jsget newOrder ''userId'' = jsget body ''userId''"
    by (simp add: newOrder_def jsget_create) (simp add: data_def jsget_def object_def)
  have f2: "jsget newOrder ''products'' = Arr stored"
    by (simp add: newOrder_def jsget_create) (simp add: data_def jsget_def object_def)
  have f3: "jsget newOrder ''totalAmount'' = tot"
    by (simp add: newOrder_def jsget_create) (simp add: data_def jsget_def object_def)
  have f4: "jsget newOrder ''status'' = Str ''pending''"
    by (simp add: newOrder_def jsget_create) (simp add: data_def jsget_def object_def)
  have l1: "length stored = length items"
    using len by (simp add: stored_def)
  have l2: "\<forall>i < length items.
        stored ! i =
          Obj (object [(''productId'', vget (items ! i) ''productId''),
                       (''quantity'', vget (items ! i) ''quantity''),
                       (''price'', jsget (ps ! i) ''price'')])"
    using len by (simp add: stored_def snapshot_def)
  have t1: "tot = foldl pluseq (Num 0)
         (map2 (\<lambda>productItem product.
                  star (jsget product ''price'') (vget productItem ''quantity'')) items ps)"
    by (simp add: tot_def line_total_def [abs_def])
  have t2: "tot = Num 35"
    if p: "map (\<lambda>product. jsget product ''price'') ps = [Num 10, Num 5]"
      and q: "map (\<lambda>productItem. vget productItem ''quantity'') items = [Num 2, Num 3]"
      and a: "star (Num 10) (Num 2) = Num 20" "star (Num 5) (Num 3) = Num 15"
        "pluseq (Num 0) (Num 20) = Num 20" "pluseq (Num 20) (Num 15) = Num 35"
  proof -
    from p obtain p1 p2 where ps: "ps = [p1, p2]"
      and pp: "jsget p1 ''price'' = Num 10" "jsget p2 ''price'' = Num 5"
      by (auto simp: map_eq_Cons_conv)
    from q obtain i1 i2 where it: "items = [i1, i2]"
      and qq: "vget i1 ''quantity'' = Num 2" "vget i2 ''quantity'' = Num 3"
      by (auto simp: map_eq_Cons_conv)
    show ?thesis
      by (simp add: tot_def ps it line_total_def pp qq a)
  qed
  from post f1 f2 f3 f4 l1 l2 t1 t2 show ?thesis
    by (intro exI [of _ newOrder] exI [of _ stored]) simp
qed


theorem orders_post_snapshot_total_witness:
  "getById (users ex_shop) (jsget ex_order_body ''userId'') = Some ex_ann \<and>
   jsget ex_order_body ''products'' = Arr ex_lines \<and>
   list_all2 (available (products ex_shop)) ex_lines [ex_pen, ex_ink] \<and>
   map (\<lambda>product. jsget product ''price'') [ex_pen, ex_ink] = [Num 10, Num 5] \<and>
   map (\<lambda>productItem. vget productItem ''quantity'') ex_lines = [Num 2, Num 3] \<and>
   ex_times (Num 10) (Num 2) = Num 20 \<and> ex_times (Num 5) (Num 3) = Num 15 \<and>
   ex_plus (Num 0) (Num 20) = Num 20 \<and> ex_plus (Num 20) (Num 15) = Num 35 \<and>
   vget (ex_lines ! 0) ''price'' = Num 1 \<and>
   (\<exists>newOrder stored.
      orders_post ex_times ex_plus ex_shop ''o1'' ''t1'' ''t2'' ex_order_body =
        (ex_shop\<lparr>orders := orders ex_shop @ [newOrder]\<rparr>,
         Success 201 (Some (Lit ''Order created successfully'')) (Item (Some newOrder))) \<and>
      jsget newOrder ''products'' = Arr stored \<and>
      stored ! 0 = Obj (object [(''productId'', Str ''p1''), (''quantity'', Num 2), (''price'', Num 10)]) \<and>
      stored ! 1 = Obj (object [(''productId'', Str ''p2''), (''quantity'', Num 3), (''price'', Num 5)]) \<and>
      jsget newOrder ''totalAmount'' = Num 35 \<and>
      jsget newOrder ''status'' = Str ''pending'')"
proof -
  note defs = ex_shop_def ex_order_body_def ex_ann_def ex_lines_def ex_pen_def ex_ink_def
    ex_quill_def available_def getById_def jsget_def vget_def object_def
  have u: "getById (users ex_shop) (jsget ex_order_body ''userId'') = Some ex_ann"
    by (simp add: defs)
  have l: "jsget ex_order_body ''products'' = Arr ex_lines"
    by (simp add: ex_order_body_def jsget_def object_def)
  have a: "list_all2 (available (products ex_shop)) ex_lines [ex_pen, ex_ink]"
    by (simp add: defs)
  have p: "map (\<lambda>product. jsget product ''price'') [ex_pen, ex_ink] = [Num 10, Num 5]"
    by (simp add: defs)
  have q: "map (\<lambda>productItem. vget productItem ''quantity'') ex_lines = [Num 2, Num 3]"
    by (simp add: defs)
  have e: "ex_times (Num 10) (Num 2) = Num 20" "ex_times (Num 5) (Num 3) = Num 15"
    "ex_plus (Num 0) (Num 20) = Num 20" "ex_plus (Num 20) (Num 15) = Num 35"
    by (simp_all add: ex_times_def ex_plus_def)
  have r: "vget (ex_lines ! 0) ''price'' = Num 1"
    by (simp add: defs)
  have v: "vget (ex_lines ! 0) ''productId'' = Str ''p1''" "vget (ex_lines ! 0) ''quantity'' = Num 2"
    "vget (ex_lines ! 1) ''productId'' = Str ''p2''" "vget (ex_lines ! 1) ''quantity'' = Num 3"
    "jsget ([ex_pen, ex_ink] ! 0) ''price'' = Num 10" "jsget ([ex_pen, ex_ink] ! 1) ''price'' = Num 5"
    "length ex_lines = 2"
    by (simp_all add: defs)
  from orders_post_snapshot_total [OF u l a, where star = ex_times and pluseq = ex_plus
      and gid = "''o1''" and ?t1.0 = "''t1''" and ?t2.0 = "''t2''"]
  obtain newOrder stored where
    1: "orders_post ex_times ex_plus ex_shop ''o1'' ''t1'' ''t2'' ex_order_body =
        (ex_shop\<lparr>orders := orders ex_shop @ [newOrder]\<rparr>,
         Success 201 (Some (Lit ''Order created successfully'')) (Item (Some newOrder)))"
    and 2: "jsget newOrder ''products'' = Arr stored"
    and 3: "\<forall>i < length ex_lines.
        stored ! i =
          Obj (object [(''productId'', vget (ex_lines ! i) ''productId''),
                       (''quantity'', vget (ex_lines ! i) ''quantity''),
                       (''price'', jsget ([ex_pen, ex_ink] ! i) ''price'')])"
    and 4: "jsget newOrder ''status'' = Str ''pending''"
    and 5: "map (\<lambda>product. jsget product ''price'') [ex_pen, ex_ink] = [Num 10, Num 5] \<and>
      map (\<lambda>productItem. vget productItem ''quantity'') ex_lines = [Num 2, Num 3] \<and>
      ex_times (Num 10) (Num 2) = Num 20 \<and> ex_times (Num 5) (Num 3) = Num 15 \<and>
      ex_plus (Num 0) (Num 20) = Num 20 \<and> ex_plus (Num 20) (Num 15) = Num 35 \<longrightarrow>
      jsget newOrder ''totalAmount'' = Num 35"
    by blast
  from 3 v have 6: "stored ! 0 =
      Obj (object [(''productId'', Str ''p1''), (''quantity'', Num 2), (''price'', Num 10)])"
    by (metis zero_less_numeral)
  from 3 v have 7: "stored ! 1 =
      Obj (object [(''productId'', Str ''p2''), (''quantity'', Num 3), (''price'', Num 5)])"
    by (metis one_less_numeral_iff semiring_norm(76))
  from 5 p q e have 8: "jsget newOrder ''totalAmount'' = Num 35"
    by blast
  from u l a p q e r 1 2 4 6 7 8 show ?thesis
    by blast
qed

section \<open>POST /orders: all or nothing\<close>

lemma validate_products_Inl:
  "validate_products star pluseq prods items tot acc = Inl r \<Longrightarrow> \<exists>c m. r = Failure c m"
proof (induction items arbitrary: tot acc)
  case Nil
  then show ?case by simp
next
  case (Cons x xs)
  then show ?case
    by (auto split: if_splits option.splits)
qed


text \<open>
  C2: \<open>POST /orders\<close> is all or nothing. An unknown user is answered 404 "User not
  found"; the first line whose product is missing is answered 404 with the product id in
  the message, the first line whose product is out of stock 400; whenever some line is
  missing or out of stock the answer is a 404 or a 400. In each of these cases the store
  is returned as it was, so the number of orders is unchanged. In general the handler
  either answers with an error and the unchanged store, or answers 201 and appends
  exactly one order: every check precedes the one write.
\<close>

theorem orders_post_all_or_nothing:
  "(getById (users s) (jsget body ''userId'') = None \<longrightarrow>
      orders_post star pluseq s gid t1 t2 body = (s, Failure 404 (Lit ''User not found''))) \<and>
   (\<forall>user pre ps item rest.
      getById (users s) (jsget body ''userId'') = Some user \<and>
      jsget body ''products'' = Arr (pre @ item # rest) \<and>
      list_all2 (available (products s)) pre ps \<and> item \<noteq> Null \<and> item \<noteq> Undefined \<longrightarrow>
      (getById (products s) (vget item ''productId'') = None \<longrightarrow>
         orders_post star pluseq s gid t1 t2 body =
           (s, Failure 404 (Tmpl ''Product with ID '' (vget item ''productId'') '' not found''))) \<and>
      (\<forall>product.
         getById (products s) (vget item ''productId'') = Some product \<and>
         \<not> truthy (jsget product ''inStock'') \<longrightarrow>
         orders_post star pluseq s gid t1 t2 body =
           (s, Failure 400 (Tmpl ''Product '' (jsget product ''name'') '' is out of stock'')))) \<and>
   (\<forall>user items.
      getById (users s) (jsget body ''userId'') = Some user \<and>
      jsget body ''products'' = Arr items \<and>
      (\<forall>item \<in> set items. item \<noteq> Null \<and> item \<noteq> Undefined) \<and>
      (\<exists>item \<in> set items. offending (products s) item) \<longrightarrow>
      fst (orders_post star pluseq s gid t1 t2 body) = s \<and>
      (\<exists>m. snd (orders_post star pluseq s gid t1 t2 body) = Failure 404 m \<or>
           snd (orders_post star pluseq s gid t1 t2 body) = Failure 400 m)) \<and>
   ((\<exists>c m. orders_post star pluseq s gid t1 t2 body = (s, Failure c m)) \<or>
    (\<exists>newOrder. orders_post star pluseq s gid t1 t2 body =
        (s\<lparr>orders := orders s @ [newOrder]\<rparr>,
         Success 201 (Some (Lit ''Order created successfully'')) (Item (Some newOrder)))))"
proof (intro conjI allI impI; (elim conjE)?)
  assume "getById (users s) (jsget body ''userId'') = None"
  then show "orders_post star pluseq s gid t1 t2 body = (s, Failure 404 (Lit ''User not found''))"
    by (simp add: orders_post_def)
next
  fix user pre ps item rest
  assume u: "getById (users s) (jsget body ''userId'') = Some user"
    and l: "jsget body ''products'' = Arr (pre @ item # rest)"
    and a: "list_all2 (available (products s)) pre ps"
    and n: "item \<noteq> Null" "item \<noteq> Undefined"
    and m: "getById (products s) (vget item ''productId'') = None"
  from validate_products_missing [OF a n m, where rest = rest and tot = "Num 0" and acc = "[]" and star = star and pluseq = pluseq] u l
  show "orders_post star pluseq s gid t1 t2 body =
      (s, Failure 404 (Tmpl ''Product with ID '' (vget item ''productId'') '' not found''))"
    by (simp add: orders_post_def iterate_def)
next
  fix user pre ps item rest product
  assume u: "getById (users s) (jsget body ''userId'') = Some user"
    and l: "jsget body ''products'' = Arr (pre @ item # rest)"
    and a: "list_all2 (available (products s)) pre ps"
    and n: "item \<noteq> Null" "item \<noteq> Undefined"
    and f: "getById (products s) (vget item ''productId'') = Some product"
    and o: "\<not> truthy (jsget product ''inStock'')"
  from validate_products_out_of_stock [OF a n f o, where rest = rest and tot = "Num 0" and acc = "[]" and star = star and pluseq = pluseq] u l
  show "orders_post star pluseq s gid t1 t2 body =
      (s, Failure 400 (Tmpl ''Product '' (jsget product ''name'') '' is out of stock''))"
    by (simp add: orders_post_def iterate_def)
next
  fix user items
  assume u: "getById (users s) (jsget body ''userId'') = Some user"
    and l: "jsget body ''products'' = Arr items"
    and n: "\<forall>item \<in> set items. item \<noteq> Null \<and> item \<noteq> Undefined"
    and e: "\<exists>item \<in> set items. offending (products s) item"
  from validate_products_offender [OF e n, where tot = "Num 0" and acc = "[]" and star = star and pluseq = pluseq]
  obtain m where "validate_products star pluseq (products s) items (Num 0) [] = Inl (Failure 404 m) \<or>
      validate_products star pluseq (products s) items (Num 0) [] = Inl (Failure 400 m)"
    by blast
  with u l have r: "orders_post star pluseq s gid t1 t2 body = (s, Failure 404 m) \<or>
      orders_post star pluseq s gid t1 t2 body = (s, Failure 400 m)"
    by (auto simp: orders_post_def iterate_def)
  then show "fst (orders_post star pluseq s gid t1 t2 body) = s"
    by auto
  from r show "\<exists>m. snd (orders_post star pluseq s gid t1 t2 body) = Failure 404 m \<or>
      snd (orders_post star pluseq s gid t1 t2 body) = Failure 400 m"
    by auto
next
  show "(\<exists>c m. orders_post star pluseq s gid t1 t2 body = (s, Failure c m)) \<or>
    (\<exists>newOrder. orders_post star pluseq s gid t1 t2 body =
        (s\<lparr>orders := orders s @ [newOrder]\<rparr>,
         Success 201 (Some (Lit ''Order created successfully'')) (Item (Some newOrder))))"
  proof (cases "getById (users s) (jsget body ''userId'')")
    case None
    then show ?thesis by (simp add: orders_post_def)
  next
    case (Some user)
    show ?thesis
    proof (cases "iterate (jsget body ''products'')")
      case None
      with Some show ?thesis by (simp add: orders_post_def)
    next
      case it: (Some items)
      show ?thesis
      proof (cases "validate_products star pluseq (products s) items (Num 0) []")
        case (Inl r)
        from validate_products_Inl [OF Inl] obtain c m where "r = Failure c m"
          by blast
        with Some it Inl show ?thesis by (simp add: orders_post_def)
      next
        case (Inr res)
        obtain tot vps where res: "res = (tot, vps)"
          by (cases res)
        show ?thesis
          using Some it Inr res
          by (simp add: orders_post_def create_def Let_def)
      qed
    qed
  qed
qed

theorem orders_post_all_or_nothing_witness:
  "getById (users ex_shop) (jsget ex_body_no_user ''userId'') = None \<and>
   orders_post ex_times ex_plus ex_shop ''o1'' ''t1'' ''t2'' ex_body_no_user =
     (ex_shop, Failure 404 (Lit ''User not found'')) \<and>
   getById (users ex_shop) (jsget ex_body_missing ''userId'') = Some ex_ann \<and>
   jsget ex_body_missing ''products'' = Arr (ex_lines @ ex_line_missing # [ex_line_out_of_stock]) \<and>
   list_all2 (available (products ex_shop)) ex_lines [ex_pen, ex_ink] \<and>
   getById (products ex_shop) (vget ex_line_missing ''productId'') = None \<and>
   orders_post ex_times ex_plus ex_shop ''o1'' ''t1'' ''t2'' ex_body_missing =
     (ex_shop, Failure 404 (Tmpl ''Product with ID '' (Str ''p9'') '' not found'')) \<and>
   jsget ex_body_out_of_stock ''products'' = Arr (ex_lines @ ex_line_out_of_stock # [ex_line_missing]) \<and>
   getById (products ex_shop) (vget ex_line_out_of_stock ''productId'') = Some ex_quill \<and>
   \<not> truthy (jsget ex_quill ''inStock'') \<and>
   orders_post ex_times ex_plus ex_shop ''o1'' ''t1'' ''t2'' ex_body_out_of_stock =
     (ex_shop, Failure 400 (Tmpl ''Product '' (Str ''Quill'') '' is out of stock'')) \<and>
   (\<exists>item \<in> set (ex_lines @ ex_line_out_of_stock # [ex_line_missing]). offending (products ex_shop) item) \<and>
   length (orders (fst (orders_post ex_times ex_plus ex_shop ''o1'' ''t1'' ''t2'' ex_body_out_of_stock))) =
     length (orders ex_shop)"
proof -
  note defs = ex_shop_def ex_order_body_def ex_ann_def ex_lines_def ex_pen_def ex_ink_def ex_quill_def
    ex_line_missing_def ex_line_out_of_stock_def ex_body_no_user_def ex_body_missing_def ex_body_out_of_stock_def
    getById_def jsget_def vget_def object_def available_def offending_def
  have u0: "getById (users ex_shop) (jsget ex_body_no_user ''userId'') = None"
    by (simp add: defs)
  have u1: "getById (users ex_shop) (jsget ex_body_missing ''userId'') = Some ex_ann"
    by (simp add: defs)
  have u2: "getById (users ex_shop) (jsget ex_body_out_of_stock ''userId'') = Some ex_ann"
    by (simp add: defs)
  have l1: "jsget ex_body_missing ''products'' = Arr (ex_lines @ ex_line_missing # [ex_line_out_of_stock])"
    by (simp add: ex_body_missing_def jsget_def object_def)
  have l2: "jsget ex_body_out_of_stock ''products'' = Arr (ex_lines @ ex_line_out_of_stock # [ex_line_missing])"
    by (simp add: ex_body_out_of_stock_def jsget_def object_def)
  have a: "list_all2 (available (products ex_shop)) ex_lines [ex_pen, ex_ink]"
    by (simp add: defs)
  have n1: "ex_line_missing \<noteq> Null \<and> ex_line_missing \<noteq> Undefined"
    by (simp add: ex_line_missing_def)
  have n2: "ex_line_out_of_stock \<noteq> Null \<and> ex_line_out_of_stock \<noteq> Undefined"
    by (simp add: ex_line_out_of_stock_def)
  have m: "getById (products ex_shop) (vget ex_line_missing ''productId'') = None"
    by (simp add: defs)
  have f: "getById (products ex_shop) (vget ex_line_out_of_stock ''productId'') = Some ex_quill"
    by (simp add: defs)
  have o: "\<not> truthy (jsget ex_quill ''inStock'')"
    by (simp add: defs)
  have pid: "vget ex_line_missing ''productId'' = Str ''p9''"
    by (simp add: defs)
  have nm: "jsget ex_quill ''name'' = Str ''Quill''"
    by (simp add: defs)
  have e: "\<exists>item \<in> set (ex_lines @ ex_line_out_of_stock # [ex_line_missing]). offending (products ex_shop) item"
    by (simp add: defs)
  note T0 = orders_post_all_or_nothing [where s = ex_shop and body = ex_body_no_user and gid = "''o1''"
      and ?t1.0 = "''t1''" and ?t2.0 = "''t2''" and star = ex_times and pluseq = ex_plus]
  note T1 = orders_post_all_or_nothing [where s = ex_shop and body = ex_body_missing and gid = "''o1''"
      and ?t1.0 = "''t1''" and ?t2.0 = "''t2''" and star = ex_times and pluseq = ex_plus]
  note T2 = orders_post_all_or_nothing [where s = ex_shop and body = ex_body_out_of_stock and gid = "''o1''"
      and ?t1.0 = "''t1''" and ?t2.0 = "''t2''" and star = ex_times and pluseq = ex_plus]
  from T0 u0 have r0: "orders_post ex_times ex_plus ex_shop ''o1'' ''t1'' ''t2'' ex_body_no_user =
     (ex_shop, Failure 404 (Lit ''User not found''))"
    by blast
  from T1 u1 l1 a n1 m have "orders_post ex_times ex_plus ex_shop ''o1'' ''t1'' ''t2'' ex_body_missing =
     (ex_shop, Failure 404 (Tmpl ''Product with ID '' (vget ex_line_missing ''productId'') '' not found''))"
    by blast
  then have r1: "orders_post ex_times ex_plus ex_shop ''o1'' ''t1'' ''t2'' ex_body_missing =
     (ex_shop, Failure 404 (Tmpl ''Product with ID '' (Str ''p9'') '' not found''))"
    by (simp only: pid)
  from T2 u2 l2 a n2 f o have "orders_post ex_times ex_plus ex_shop ''o1'' ''t1'' ''t2'' ex_body_out_of_stock =
     (ex_shop, Failure 400 (Tmpl ''Product '' (jsget ex_quill ''name'') '' is out of stock''))"
    by blast
  then have r2: "orders_post ex_times ex_plus ex_shop ''o1'' ''t1'' ''t2'' ex_body_out_of_stock =
     (ex_shop, Failure 400 (Tmpl ''Product '' (Str ''Quill'') '' is out of stock''))"
    by (simp only: nm)
  have len: "length (orders (fst (orders_post ex_times ex_plus ex_shop ''o1'' ''t1'' ''t2'' ex_body_out_of_stock))) =
     length (orders ex_shop)"
    by (simp only: r2 fst_conv)
  from u0 r0 u1 l1 a m r1 l2 f o r2 e len show ?thesis
    by blast
qed

section \<open>Facts about the sanitizers\<close>

lemma jsget_sanitize_field:
  "jsget (sanitize_field f k body) k' =
     (if k' = k \<and> jsget body k \<noteq> Undefined then f (jsget body k) else jsget body k')"
  by (simp add: sanitize_field_def jsget_def)

lemma jsget_sanitize_user:
  "jsget (sanitize_user trim normalizeEmail body) k =
     (if k = ''email'' \<and> jsget body ''email'' \<noteq> Undefined then normalizeEmail (jsget body ''email'')
      else if k = ''name'' \<and> jsget body ''name'' \<noteq> Undefined then trim (jsget body ''name'')
      else jsget body k)"
  by (simp add: sanitize_user_def jsget_sanitize_field)

lemma fmdom_sanitize_field:
  "k' |\<in>| fmdom (sanitize_field f k body) \<longleftrightarrow> k' |\<in>| fmdom body"
  by (auto simp: sanitize_field_def jsget_def fmdomI split: option.splits if_splits)

lemma fmdom_sanitize_user:
  "k |\<in>| fmdom (sanitize_user trim normalizeEmail body) \<longleftrightarrow> k |\<in>| fmdom body"
  by (simp add: sanitize_user_def fmdom_sanitize_field)



section \<open>POST /users: duplicate email\<close>





section \<open>Pagination of the list callbacks\<close>











section \<open>POST, then GET\<close>














section \<open>PATCH /orders: status\<close>

lemma object_status:
  "jsget (object [(''status'', Str st)]) ''status'' = Str st"
  "fmdom (object [(''status'', Str st)]) = {|''status''|}"
  by (simp_all add: jsget_def object_def)

text \<open>
  What holds of the status check: each of the five statuses is accepted from any current
  status, and a status that is a string outside the five is answered 400 with the store
  as it was.
\<close>

lemma orders_patch_status_strings:
  "(\<forall>existing st.
      isUUID ident \<and> getById (orders s) (Str ident) = Some existing \<and>
      st \<in> set order_statuses \<longrightarrow>
      (\<exists>s' updated.
         orders_patch_route isUUID stringify s ident now (object [(''status'', Str st)]) =
           (s', Success 200 (Some (Lit ''Order updated successfully'')) (Item (Some updated))) \<and>
         jsget updated ''status'' = Str st \<and>
         orders_get s' ident = Success 200 None (Item (Some updated)) \<and>
         users s' = users s \<and> products s' = products s \<and>
         length (orders s') = length (orders s))) \<and>
   (\<forall>x. jsget body ''status'' = Str x \<and> x \<notin> set order_statuses \<longrightarrow>
      orders_patch_route isUUID stringify s ident now body =
        (s, ValidationFailed (orders_patch_errors isUUID stringify ident body)) \<and>
      status (snd (orders_patch_route isUUID stringify s ident now body)) = 400 \<and>
      (''status'', ''Invalid status'', Str x) \<in> set (orders_patch_errors isUUID stringify ident body))"
proof (intro conjI allI impI; (elim conjE)?)
  fix existing st
  assume id: "isUUID ident"
    and o: "getById (orders s) (Str ident) = Some existing"
    and st: "st \<in> set order_statuses"
  define body where "body = object [(''status'', Str st)]"
  define updated where "updated = merged existing body now"
  have noerr: "orders_patch_errors isUUID stringify ident body = []"
    using id st by (simp add: orders_patch_errors_def body_def object_status isIn_def in_values_def)
  from update_found [OF o, of now body] obtain i where i: "i < length (orders s)"
    "orders s ! i = existing"
    and fi: "findIndex (\<lambda>r. strict_eq (jsget r ''id'') (Str ident)) (orders s) = Some i"
    and upd: "update (orders s) (Str ident) now body = ((orders s)[i := updated], Some updated)"
    unfolding updated_def by blast
  define s' where "s' = s\<lparr>orders := (orders s)[i := updated]\<rparr>"
  have r: "orders_patch_route isUUID stringify s ident now body =
      (s', Success 200 (Some (Lit ''Order updated successfully'')) (Item (Some updated)))"
    using noerr o upd by (simp add: orders_patch_route_def orders_patch_def s'_def)
  have f: "jsget updated ''status'' = Str st"
    by (simp add: updated_def jsget_merged body_def object_status)
  have "jsget updated ''id'' = jsget existing ''id''"
    by (simp add: updated_def jsget_merged body_def object_status)
  moreover have "strict_eq (jsget existing ''id'') (Str ident)"
    using findIndex_Some [OF fi] i(2) by simp
  ultimately have "strict_eq (jsget updated ''id'') (Str ident)"
    by simp
  from find_list_update_first [OF fi, of updated] this
  have g: "orders_get s' ident = Success 200 None (Item (Some updated))"
    by (simp add: orders_get_def getById_def s'_def)
  have k: "users s' = users s" "products s' = products s" "length (orders s') = length (orders s)"
    by (simp_all add: s'_def)
  from r f g k
  show "\<exists>s' updated.
         orders_patch_route isUUID stringify s ident now (object [(''status'', Str st)]) =
           (s', Success 200 (Some (Lit ''Order updated successfully'')) (Item (Some updated))) \<and>
         jsget updated ''status'' = Str st \<and>
         orders_get s' ident = Success 200 None (Item (Some updated)) \<and>
         users s' = users s \<and> products s' = products s \<and>
         length (orders s') = length (orders s)"
    unfolding body_def by blast
next
  fix x
  assume b: "jsget body ''status'' = Str x" and x: "x \<notin> set order_statuses"
  then have e: "(''status'', ''Invalid status'', Str x) \<in> set (orders_patch_errors isUUID stringify ident body)"
    by (simp add: orders_patch_errors_def isIn_def in_values_def)
  then have ne: "orders_patch_errors isUUID stringify ident body \<noteq> []"
    by auto
  then show r: "orders_patch_route isUUID stringify s ident now body =
        (s, ValidationFailed (orders_patch_errors isUUID stringify ident body))"
    by (simp add: orders_patch_route_def)
  then show "status (snd (orders_patch_route isUUID stringify s ident now body)) = 400"
    by simp
  from e show "(''status'', ''Invalid status'', Str x) \<in> set (orders_patch_errors isUUID stringify ident body)" .
qed


text \<open>
  C9 at a failing input. On the seed data, \<open>PATCH\<close> on the seed order with body
  \<open>{status: []}\<close>, and with \<open>{status: ["pending"]}\<close>, passes the validation (the
  membership test runs on the elements of an array) and is answered 200; the order's
  stored status is then the array, which is none of the five statuses.
\<close>

theorem orders_patch_accepts_array_status:
  "ex_isUUID ''770e8400-e29b-41d4-a716-446655440000'' \<and>
   jsget ex_empty_status_body ''status'' = Arr [] \<and>
   Arr [] \<notin> Str ` set order_statuses \<and>
   status (snd ex_after_empty_status) = 200 \<and>
   got (orders_get (fst ex_after_empty_status) ''770e8400-e29b-41d4-a716-446655440000'') ''status''
     = Arr [] \<and>
   jsget ex_array_status_body ''status'' = Arr [Str ''pending''] \<and>
   Arr [Str ''pending''] \<notin> Str ` set order_statuses \<and>
   status (snd ex_after_array_status) = 200 \<and>
   got (orders_get (fst ex_after_array_status) ''770e8400-e29b-41d4-a716-446655440000'') ''status''
     = Arr [Str ''pending'']"
  by code_simp

section \<open>PATCH: identity and derived fields\<close>

text \<open>
  What the two \<open>PATCH\<close> callbacks do with \<open>req.body\<close> when they answer 200: the first
  record with the path id is replaced by the merge of \<open>req.body\<close> into it.
\<close>

lemma patch_callbacks_merge:
  "(\<forall>s' r. users_patch s ident now body = (s', r) \<and> status r = 200 \<longrightarrow>
      (\<exists>i old. i < length (users s) \<and> getById (users s) (Str ident) = Some old \<and>
         users s ! i = old \<and>
         s' = s\<lparr>users := (users s)[i := merged old body now]\<rparr> \<and>
         r = Success 200 (Some (Lit ''User updated successfully''))
               (Item (Some (merged old body now))) \<and>
         (\<forall>k. k |\<in>| fmdom body \<and> k \<noteq> ''updatedAt'' \<longrightarrow> jsget (users s' ! i) k = jsget body k) \<and>
         (''id'' |\<in>| fmdom body \<and> \<not> strict_eq (jsget body ''id'') (Str ident) \<and>
          (\<forall>j < length (users s). j \<noteq> i \<longrightarrow> \<not> strict_eq (jsget (users s ! j) ''id'') (Str ident))
          \<longrightarrow> users_get s' ident = Failure 404 (Lit ''User not found'')))) \<and>
   (\<forall>s' r. orders_patch s ident now body = (s', r) \<and> status r = 200 \<longrightarrow>
      (\<exists>i old. i < length (orders s) \<and> getById (orders s) (Str ident) = Some old \<and>
         orders s ! i = old \<and>
         s' = s\<lparr>orders := (orders s)[i := merged old body now]\<rparr> \<and>
         r = Success 200 (Some (Lit ''Order updated successfully''))
               (Item (Some (merged old body now))) \<and>
         (\<forall>k. k |\<in>| fmdom body \<and> k \<noteq> ''updatedAt'' \<longrightarrow> jsget (orders s' ! i) k = jsget body k)))"
proof (intro conjI allI impI; (elim conjE)?)
  fix s' r
  assume p: "users_patch s ident now body = (s', r)" and ok: "status r = 200"
  show "\<exists>i old. i < length (users s) \<and> getById (users s) (Str ident) = Some old \<and>
         users s ! i = old \<and>
         s' = s\<lparr>users := (users s)[i := merged old body now]\<rparr> \<and>
         r = Success 200 (Some (Lit ''User updated successfully''))
               (Item (Some (merged old body now))) \<and>
         (\<forall>k. k |\<in>| fmdom body \<and> k \<noteq> ''updatedAt'' \<longrightarrow> jsget (users s' ! i) k = jsget body k) \<and>
         (''id'' |\<in>| fmdom body \<and> \<not> strict_eq (jsget body ''id'') (Str ident) \<and>
          (\<forall>j < length (users s). j \<noteq> i \<longrightarrow> \<not> strict_eq (jsget (users s ! j) ''id'') (Str ident))
          \<longrightarrow> users_get s' ident = Failure 404 (Lit ''User not found''))"
  proof (cases "getById (users s) (Str ident)")
    case None
    with p ok show ?thesis
      by (auto simp: users_patch_def)
  next
    case (Some old)
    from update_found [OF Some, of now body] obtain i where i: "i < length (users s)"
      "users s ! i = old"
      and upd: "update (users s) (Str ident) now body =
          ((users s)[i := merged old body now], Some (merged old body now))"
      by blast
    have res: "s' = s\<lparr>users := (users s)[i := merged old body now]\<rparr>"
      "r = Success 200 (Some (Lit ''User updated successfully'')) (Item (Some (merged old body now)))"
      using p ok Some upd by (auto simp: users_patch_def split: if_splits)
    have at: "users s' ! i = merged old body now"
      using i(1) by (simp add: res(1))
    have fields: "\<forall>k. k |\<in>| fmdom body \<and> k \<noteq> ''updatedAt'' \<longrightarrow> jsget (users s' ! i) k = jsget body k"
      by (simp add: at jsget_merged)
    have gone: "users_get s' ident = Failure 404 (Lit ''User not found'')"
      if a: "''id'' |\<in>| fmdom body" and b: "\<not> strict_eq (jsget body ''id'') (Str ident)"
        and c: "\<forall>j < length (users s). j \<noteq> i \<longrightarrow> \<not> strict_eq (jsget (users s ! j) ''id'') (Str ident)"
    proof -
      have "jsget (merged old body now) ''id'' = jsget body ''id''"
        using a by (simp add: jsget_merged)
      with b have "\<not> strict_eq (jsget (merged old body now) ''id'') (Str ident)"
        by simp
      from find_list_update_none [of i "users s" "\<lambda>r. strict_eq (jsget r ''id'') (Str ident)", OF i(1) c this]
      show ?thesis
        by (simp add: users_get_def getById_def res(1))
    qed
    from i Some res fields gone show ?thesis
      by blast
  qed
next
  fix s' r
  assume p: "orders_patch s ident now body = (s', r)" and ok: "status r = 200"
  show "\<exists>i old. i < length (orders s) \<and> getById (orders s) (Str ident) = Some old \<and>
         orders s ! i = old \<and>
         s' = s\<lparr>orders := (orders s)[i := merged old body now]\<rparr> \<and>
         r = Success 200 (Some (Lit ''Order updated successfully''))
               (Item (Some (merged old body now))) \<and>
         (\<forall>k. k |\<in>| fmdom body \<and> k \<noteq> ''updatedAt'' \<longrightarrow> jsget (orders s' ! i) k = jsget body k)"
  proof (cases "getById (orders s) (Str ident)")
    case None
    with p ok show ?thesis
      by (auto simp: orders_patch_def)
  next
    case (Some old)
    from update_found [OF Some, of now body] obtain i where i: "i < length (orders s)"
      "orders s ! i = old"
      and upd: "update (orders s) (Str ident) now body =
          ((orders s)[i := merged old body now], Some (merged old body now))"
      by blast
    have res: "s' = s\<lparr>orders := (orders s)[i := merged old body now]\<rparr>"
      "r = Success 200 (Some (Lit ''Order updated successfully'')) (Item (Some (merged old body now)))"
      using p Some upd by (auto simp: orders_patch_def)
    have at: "orders s' ! i = merged old body now"
      using i(1) by (simp add: res(1))
    have fields: "\<forall>k. k |\<in>| fmdom body \<and> k \<noteq> ''updatedAt'' \<longrightarrow> jsget (orders s' ! i) k = jsget body k"
      by (simp add: at jsget_merged)
    from i Some res fields show ?thesis
      by blast
  qed
qed

text \<open>
  C10, as stated, on the store reached from the seed data by a \<open>POST /users\<close> whose body
  carries John Doe's id: \<open>PATCH\<close> on that id with a new id is accepted and renames the
  first record, yet \<open>GET\<close> on the old id still answers 200, with the second record.
  And on the seed data, a \<open>PATCH\<close> on an existing user whose body carries a new id next
  to the email of another user is answered 409 and overwrites nothing.
\<close>

theorem patch_overwrites_identity_fields_counterexample:
  "getById (users (fst ex_after_dup_id_post)) (Str ''550e8400-e29b-41d4-a716-446655440000'') \<noteq> None \<and>
   jsget ex_rename_body ''id'' = Str ''00000000-0000-4000-8000-000000000000'' \<and>
   status (snd ex_after_rename_dup) = 200 \<and>
   got (snd ex_after_rename_dup) ''id'' = Str ''00000000-0000-4000-8000-000000000000'' \<and>
   status (users_get (fst ex_after_rename_dup) ''550e8400-e29b-41d4-a716-446655440000'') = 200 \<and>
   got (users_get (fst ex_after_rename_dup) ''550e8400-e29b-41d4-a716-446655440000'') ''name''
     = Str ''Mallory'' \<and>
   getById (users initial_store) (Str ''550e8400-e29b-41d4-a716-446655440000'') \<noteq> None \<and>
   jsget ex_rename_clash_body ''id'' = Str ''00000000-0000-4000-8000-000000000000'' \<and>
   status (snd ex_after_rename_clash) = 409 \<and>
   fst ex_after_rename_clash = initial_store \<and>
   ids (fst ex_after_rename_clash) = ids initial_store"
  by code_simp

text \<open>
  C10 (amended): the \<open>PATCH\<close> routes hand the request body to the store's merge without
  stripping fields the validation does not name (the users route first trims \<open>name\<close> and
  normalizes \<open>email\<close>; no other field is touched). So whenever \<open>PATCH /users/:id\<close> is
  answered 200, an \<open>id\<close> and a \<open>createdAt\<close> that the body contains are the ones the
  record then holds, and whenever \<open>PATCH /orders/:id\<close> is answered 200, so are a
  \<open>totalAmount\<close> and a \<open>products\<close> that the body contains; the record is the first
  one with the path id. When the body of such a users \<open>PATCH\<close> supplies an id different
  from the path id and no other stored user carries the path id, a later \<open>GET\<close> on the
  path id answers 404.
\<close>

theorem patch_overwrites_identity_fields:
  "(\<forall>s' r. users_patch_route trim normalizeEmail s ident now body = (s', r) \<and> status r = 200 \<longrightarrow>
      (\<exists>i old. i < length (users s) \<and> getById (users s) (Str ident) = Some old \<and>
         users s ! i = old \<and>
         s' = s\<lparr>users := (users s)[i := merged old (sanitize_user trim normalizeEmail body) now]\<rparr> \<and>
         r = Success 200 (Some (Lit ''User updated successfully'')) (Item (Some (users s' ! i))) \<and>
         (''id'' |\<in>| fmdom body \<longrightarrow> jsget (users s' ! i) ''id'' = jsget body ''id'') \<and>
         (''createdAt'' |\<in>| fmdom body \<longrightarrow>
            jsget (users s' ! i) ''createdAt'' = jsget body ''createdAt'') \<and>
         (''id'' |\<in>| fmdom body \<and> \<not> strict_eq (jsget body ''id'') (Str ident) \<and>
          (\<forall>j < length (users s). j \<noteq> i \<longrightarrow> \<not> strict_eq (jsget (users s ! j) ''id'') (Str ident))
          \<longrightarrow> users_get s' ident = Failure 404 (Lit ''User not found'')))) \<and>
   (\<forall>s' r. orders_patch_route isUUID stringify s ident now body = (s', r) \<and> status r = 200 \<longrightarrow>
      (\<exists>i old. i < length (orders s) \<and> getById (orders s) (Str ident) = Some old \<and>
         orders s ! i = old \<and>
         s' = s\<lparr>orders := (orders s)[i := merged old body now]\<rparr> \<and>
         r = Success 200 (Some (Lit ''Order updated successfully'')) (Item (Some (orders s' ! i))) \<and>
         (''totalAmount'' |\<in>| fmdom body \<longrightarrow>
            jsget (orders s' ! i) ''totalAmount'' = jsget body ''totalAmount'') \<and>
         (''products'' |\<in>| fmdom body \<longrightarrow>
            jsget (orders s' ! i) ''products'' = jsget body ''products'')))"
proof (intro conjI allI impI; (elim conjE)?)
  fix s' r
  let ?b = "sanitize_user trim normalizeEmail body"
  assume p: "users_patch_route trim normalizeEmail s ident now body = (s', r)"
    and ok: "status r = 200"
  from p have p': "users_patch s ident now ?b = (s', r)"
    by (simp add: users_patch_route_def)
  from patch_callbacks_merge [of s ident now ?b] p' ok
  obtain i old where i: "i < length (users s)" "getById (users s) (Str ident) = Some old"
      "users s ! i = old"
    and s': "s' = s\<lparr>users := (users s)[i := merged old ?b now]\<rparr>"
    and r: "r = Success 200 (Some (Lit ''User updated successfully'')) (Item (Some (merged old ?b now)))"
    and f: "\<forall>k. k |\<in>| fmdom ?b \<and> k \<noteq> ''updatedAt'' \<longrightarrow> jsget (users s' ! i) k = jsget ?b k"
    and g: "''id'' |\<in>| fmdom ?b \<and> \<not> strict_eq (jsget ?b ''id'') (Str ident) \<and>
          (\<forall>j < length (users s). j \<noteq> i \<longrightarrow> \<not> strict_eq (jsget (users s ! j) ''id'') (Str ident))
          \<longrightarrow> users_get s' ident = Failure 404 (Lit ''User not found'')"
    by blast
  have at: "users s' ! i = merged old ?b now"
    using i(1) by (simp add: s')
  have r': "r = Success 200 (Some (Lit ''User updated successfully'')) (Item (Some (users s' ! i)))"
    by (simp add: r at)
  have a: "''id'' |\<in>| fmdom body \<longrightarrow> jsget (users s' ! i) ''id'' = jsget body ''id''"
    using f by (simp add: fmdom_sanitize_user jsget_sanitize_user)
  have b: "''createdAt'' |\<in>| fmdom body \<longrightarrow>
      jsget (users s' ! i) ''createdAt'' = jsget body ''createdAt''"
    using f by (simp add: fmdom_sanitize_user jsget_sanitize_user)
  have c: "''id'' |\<in>| fmdom body \<and> \<not> strict_eq (jsget body ''id'') (Str ident) \<and>
          (\<forall>j < length (users s). j \<noteq> i \<longrightarrow> \<not> strict_eq (jsget (users s ! j) ''id'') (Str ident))
          \<longrightarrow> users_get s' ident = Failure 404 (Lit ''User not found'')"
    using g by (simp add: fmdom_sanitize_user jsget_sanitize_user)
  from i s' r' a b c
  show "\<exists>i old. i < length (users s) \<and> getById (users s) (Str ident) = Some old \<and>
         users s ! i = old \<and>
         s' = s\<lparr>users := (users s)[i := merged old (sanitize_user trim normalizeEmail body) now]\<rparr> \<and>
         r = Success 200 (Some (Lit ''User updated successfully'')) (Item (Some (users s' ! i))) \<and>
         (''id'' |\<in>| fmdom body \<longrightarrow> jsget (users s' ! i) ''id'' = jsget body ''id'') \<and>
         (''createdAt'' |\<in>| fmdom body \<longrightarrow>
            jsget (users s' ! i) ''createdAt'' = jsget body ''createdAt'') \<and>
         (''id'' |\<in>| fmdom body \<and> \<not> strict_eq (jsget body ''id'') (Str ident) \<and>
          (\<forall>j < length (users s). j \<noteq> i \<longrightarrow> \<not> strict_eq (jsget (users s ! j) ''id'') (Str ident))
          \<longrightarrow> users_get s' ident = Failure 404 (Lit ''User not found''))"
    by blast
next
  fix s' r
  assume p: "orders_patch_route isUUID stringify s ident now body = (s', r)"
    and ok: "status r = 200"
  from p ok have p': "orders_patch s ident now body = (s', r)"
    by (auto simp: orders_patch_route_def split: if_splits)
  from patch_callbacks_merge [of s ident now body] p' ok
  obtain i old where i: "i < length (orders s)" "getById (orders s) (Str ident) = Some old"
      "orders s ! i = old"
    and s': "s' = s\<lparr>orders := (orders s)[i := merged old body now]\<rparr>"
    and r: "r = Success 200 (Some (Lit ''Order updated successfully'')) (Item (Some (merged old body now)))"
    and f: "\<forall>k. k |\<in>| fmdom body \<and> k \<noteq> ''updatedAt'' \<longrightarrow> jsget (orders s' ! i) k = jsget body k"
    by blast
  have at: "orders s' ! i = merged old body now"
    using i(1) by (simp add: s')
  have r': "r = Success 200 (Some (Lit ''Order updated successfully'')) (Item (Some (orders s' ! i)))"
    by (simp add: r at)
  have a: "''totalAmount'' |\<in>| fmdom body \<longrightarrow>
      jsget (orders s' ! i) ''totalAmount'' = jsget body ''totalAmount''"
    using f by simp
  have b: "''products'' |\<in>| fmdom body \<longrightarrow>
      jsget (orders s' ! i) ''products'' = jsget body ''products''"
    using f by simp
  from i s' r' a b
  show "\<exists>i old. i < length (orders s) \<and> getById (orders s) (Str ident) = Some old \<and>
         orders s ! i = old \<and>
         s' = s\<lparr>orders := (orders s)[i := merged old body now]\<rparr> \<and>
         r = Success 200 (Some (Lit ''Order updated successfully'')) (Item (Some (orders s' ! i))) \<and>
         (''totalAmount'' |\<in>| fmdom body \<longrightarrow>
            jsget (orders s' ! i) ''totalAmount'' = jsget body ''totalAmount'') \<and>
         (''products'' |\<in>| fmdom body \<longrightarrow>
            jsget (orders s' ! i) ''products'' = jsget body ''products'')"
    by blast
qed

theorem patch_overwrites_identity_fields_witness:
  "status (snd ex_after_rename) = 200 \<and>
   ''id'' |\<in>| fmdom ex_rename_body \<and> ''createdAt'' |\<in>| fmdom ex_rename_body \<and>
   \<not> strict_eq (jsget ex_rename_body ''id'') (Str ''550e8400-e29b-41d4-a716-446655440000'') \<and>
   list_all (\<lambda>r. \<not> strict_eq (jsget r ''id'') (Str ''550e8400-e29b-41d4-a716-446655440000''))
     (tl (users initial_store)) \<and>
   jsget (users (fst ex_after_rename) ! 0) ''id'' = Str ''00000000-0000-4000-8000-000000000000'' \<and>
   jsget (users (fst ex_after_rename) ! 0) ''createdAt'' = Str ''1999-01-01T00:00:00.000Z'' \<and>
   users_get (fst ex_after_rename) ''550e8400-e29b-41d4-a716-446655440000''
     = Failure 404 (Lit ''User not found'') \<and>
   status (snd ex_after_order_patch) = 200 \<and>
   ''totalAmount'' |\<in>| fmdom ex_order_patch_body \<and> ''products'' |\<in>| fmdom ex_order_patch_body \<and>
   jsget (orders (fst ex_after_order_patch) ! 0) ''totalAmount'' = Num 0 \<and>
   jsget (orders (fst ex_after_order_patch) ! 0) ''products'' = Arr []"
proof -
  let ?X = "''550e8400-e29b-41d4-a716-446655440000''"
  let ?O = "''770e8400-e29b-41d4-a716-446655440000''"
  note T = patch_overwrites_identity_fields [where trim = ex_trim and normalizeEmail = ex_normalizeEmail
      and isUUID = ex_isUUID and stringify = ex_stringify and s = initial_store and now = "''2024-02-01T00:00:02.000Z''"]
  note U = T [where ident = ?X and body = ex_rename_body, THEN conjunct1, rule_format,
      of "fst ex_after_rename" "snd ex_after_rename"]
  note V = patch_overwrites_identity_fields [where trim = ex_trim and normalizeEmail = ex_normalizeEmail
      and isUUID = ex_isUUID and stringify = ex_stringify and s = initial_store
      and now = "''2024-02-01T00:00:03.000Z''" and ident = ?O and body = ex_order_patch_body,
      THEN conjunct2, rule_format, of "fst ex_after_order_patch" "snd ex_after_order_patch"]
  have ok: "status (snd ex_after_rename) = 200"
    by code_simp
  have d: "''id'' |\<in>| fmdom ex_rename_body" "''createdAt'' |\<in>| fmdom ex_rename_body"
    by (simp_all add: ex_rename_body_def object_def)
  have v: "jsget ex_rename_body ''id'' = Str ''00000000-0000-4000-8000-000000000000''"
    "jsget ex_rename_body ''createdAt'' = Str ''1999-01-01T00:00:00.000Z''"
    by (simp_all add: ex_rename_body_def object_def jsget_def)
  have ne: "\<not> strict_eq (jsget ex_rename_body ''id'') (Str ?X)"
    by (simp add: v)
  have others: "\<forall>j < length (users initial_store). j \<noteq> 0 \<longrightarrow>
      \<not> strict_eq (jsget (users initial_store ! j) ''id'') (Str ?X)"
    by (simp add: initial_store_def jsget_def object_def less_Suc_eq)
  from U ok
  obtain i old where i: "i < length (users initial_store)"
    "getById (users initial_store) (Str ?X) = Some old" "users initial_store ! i = old"
    and f1: "''id'' |\<in>| fmdom ex_rename_body \<longrightarrow>
        jsget (users (fst ex_after_rename) ! i) ''id'' = jsget ex_rename_body ''id''"
    and f2: "''createdAt'' |\<in>| fmdom ex_rename_body \<longrightarrow>
        jsget (users (fst ex_after_rename) ! i) ''createdAt'' = jsget ex_rename_body ''createdAt''"
    and g: "''id'' |\<in>| fmdom ex_rename_body \<and> \<not> strict_eq (jsget ex_rename_body ''id'') (Str ?X) \<and>
          (\<forall>j < length (users initial_store). j \<noteq> i \<longrightarrow>
             \<not> strict_eq (jsget (users initial_store ! j) ''id'') (Str ?X))
          \<longrightarrow> users_get (fst ex_after_rename) ?X = Failure 404 (Lit ''User not found'')"
    unfolding ex_after_rename_def by (simp only: prod.collapse) blast
  have "strict_eq (jsget (users initial_store ! i) ''id'') (Str ?X)"
    using i(2,3) by (auto simp: getById_def dest: find_Some_iff [THEN iffD1])
  with others i(1) have i0: "i = 0"
    by blast
  have a1: "jsget (users (fst ex_after_rename) ! 0) ''id'' = Str ''00000000-0000-4000-8000-000000000000''"
    using f1 d(1) v(1) by (simp add: i0)
  have a2: "jsget (users (fst ex_after_rename) ! 0) ''createdAt'' = Str ''1999-01-01T00:00:00.000Z''"
    using f2 d(2) v(2) by (simp add: i0)
  have a3: "users_get (fst ex_after_rename) ?X = Failure 404 (Lit ''User not found'')"
    using g d(1) ne others by (simp add: i0)
  have rest: "list_all (\<lambda>r. \<not> strict_eq (jsget r ''id'') (Str ?X)) (tl (users initial_store))"
    by (simp add: initial_store_def jsget_def object_def)
  have ook: "status (snd ex_after_order_patch) = 200"
    by code_simp
  have od: "''totalAmount'' |\<in>| fmdom ex_order_patch_body" "''products'' |\<in>| fmdom ex_order_patch_body"
    by (simp_all add: ex_order_patch_body_def object_def)
  have ov: "jsget ex_order_patch_body ''totalAmount'' = Num 0"
    "jsget ex_order_patch_body ''products'' = Arr []"
    by (simp_all add: ex_order_patch_body_def object_def jsget_def)
  have one: "length (orders initial_store) = 1"
    by (simp add: initial_store_def)
  from V ook
  obtain k where k: "k < length (orders initial_store)"
    and h1: "''totalAmount'' |\<in>| fmdom ex_order_patch_body \<longrightarrow>
        jsget (orders (fst ex_after_order_patch) ! k) ''totalAmount'' = jsget ex_order_patch_body ''totalAmount''"
    and h2: "''products'' |\<in>| fmdom ex_order_patch_body \<longrightarrow>
        jsget (orders (fst ex_after_order_patch) ! k) ''products'' = jsget ex_order_patch_body ''products''"
    unfolding ex_after_order_patch_def by (simp only: prod.collapse) blast
  from k one have k0: "k = 0"
    by simp
  have o1: "jsget (orders (fst ex_after_order_patch) ! 0) ''totalAmount'' = Num 0"
    using h1 od(1) ov(1) by (simp add: k0)
  have o2: "jsget (orders (fst ex_after_order_patch) ! 0) ''products'' = Arr []"
    using h2 od(2) ov(2) by (simp add: k0)
  from ok d ne rest a1 a2 a3 ook od o1 o2 show ?thesis
    by blast
qed

end
